theory Spec2Isabelle
  imports Main "HOL-Library.Word"
begin

unbundle bit_operations_syntax

section \<open>Key management of encrypted datasets: libzfs\_crypto.c\<close>

text \<open>
  A shallow embedding of \<^verbatim>\<open>lib/libzfs/libzfs_crypto.c\<close>. Each C function is a HOL
  function of the same name. A function returns its \<^verbatim>\<open>int\<close> return code (0 is
  success, an errno value otherwise) together with the values it leaves in its output
  parameters. Buffers are byte lists. The standard input stream and the auxiliary
  error message of the library handle (\<^verbatim>\<open>zfs_error_aux\<close>) are the mutable state,
  a record that is passed in and returned. The collaborators whose code is not in the
  file (the file system, the cryptographic provider, the random source, the storage
  layer's ioctls) are the fields of an environment record.

  Not modelled: heap exhaustion (every allocation succeeds), the text of the prompt,
  the echo mode of the terminal and the delivery of signals. None of them changes a
  return value or an output parameter on the paths studied here, except a failing
  \<^verbatim>\<open>tcsetattr\<close>, which is modelled.
\<close>

subsection \<open>Bytes, return codes, constants\<close>

type_synonym byte = "8 word"
type_synonym uint64 = "64 word"

text \<open>The values of \<^verbatim>\<open>errno.h\<close> the file names.\<close>

definition ENOENT :: int where "ENOENT = 2"
definition EIO :: int where "EIO = 5"
definition ENOMEM :: int where "ENOMEM = 12"
definition EACCES :: int where "EACCES = 13"
definition EBUSY :: int where "EBUSY = 16"
definition EEXIST :: int where "EEXIST = 17"
definition EINVAL :: int where "EINVAL = 22"
definition ENOTTY :: int where "ENOTTY = 25"

definition MIN_PASSPHRASE_LEN :: nat where "MIN_PASSPHRASE_LEN = 8"
definition MAX_PASSPHRASE_LEN :: nat where "MAX_PASSPHRASE_LEN = 64"
definition MAX_KEY_PROMPT_ATTEMPTS :: int where "MAX_KEY_PROMPT_ATTEMPTS = 3"

text \<open>
  \<^verbatim>\<open>WRAPPING_KEY_LEN\<close> (sys/dsl\_crypt.h) and \<^verbatim>\<open>SHA1_DIGEST_LEN\<close> are declared
  outside the file; the values are those of the specification (32 and 20 bytes).
\<close>

definition WRAPPING_KEY_LEN :: nat where "WRAPPING_KEY_LEN = 32"
definition SHA1_DIGEST_LEN :: nat where "SHA1_DIGEST_LEN = 20"

text \<open>
  \<^verbatim>\<open>zfs_keystatus_t\<close> and \<^verbatim>\<open>enum zio_encrypt\<close> (sys/fs/zfs.h, sys/zio.h) are held in
  \<^verbatim>\<open>uint64_t\<close> variables by the file and only compared with the constants below. So
  is \<^verbatim>\<open>zfs_keyformat_t\<close> by \<^verbatim>\<open>zfs_crypto_create\<close>, \<^verbatim>\<open>zfs_crypto_clone\<close>,
  \<^verbatim>\<open>zfs_crypto_load_key\<close> and \<^verbatim>\<open>zfs_crypto_rewrap\<close>; the functions they hand the
  key format to take it as a parameter of the type \<^verbatim>\<open>zfs_keyformat_t\<close>, an enumeration
  of 32 bits without sign, so that the call keeps the low 32 bits of the variable. The
  enumerators are used at both widths.
\<close>

type_synonym zfs_keyformat_t = "32 word"

definition ZFS_KEYFORMAT_NONE :: "'a::len word" where "ZFS_KEYFORMAT_NONE = 0"
definition ZFS_KEYFORMAT_RAW :: "'a::len word" where "ZFS_KEYFORMAT_RAW = 1"
definition ZFS_KEYFORMAT_HEX :: "'a::len word" where "ZFS_KEYFORMAT_HEX = 2"
definition ZFS_KEYFORMAT_PASSPHRASE :: "'a::len word" where "ZFS_KEYFORMAT_PASSPHRASE = 3"

definition ZFS_KEYSTATUS_NONE :: uint64 where "ZFS_KEYSTATUS_NONE = 0"
definition ZFS_KEYSTATUS_UNAVAILABLE :: uint64 where "ZFS_KEYSTATUS_UNAVAILABLE = 1"
definition ZFS_KEYSTATUS_AVAILABLE :: uint64 where "ZFS_KEYSTATUS_AVAILABLE = 2"

definition ZIO_CRYPT_INHERIT :: uint64 where "ZIO_CRYPT_INHERIT = 0"
definition ZIO_CRYPT_ON :: uint64 where "ZIO_CRYPT_ON = 1"
definition ZIO_CRYPT_OFF :: uint64 where "ZIO_CRYPT_OFF = 2"

datatype zfs_keylocation =
  ZFS_KEYLOCATION_NONE | ZFS_KEYLOCATION_PROMPT | ZFS_KEYLOCATION_URI

definition zfs_prop_parse_keylocation :: "string \<Rightarrow> zfs_keylocation" where
  "zfs_prop_parse_keylocation str =
     (if str = ''prompt'' then ZFS_KEYLOCATION_PROMPT
      else if length str > 8 \<and> take 8 str = ''file:///'' then ZFS_KEYLOCATION_URI
      else ZFS_KEYLOCATION_NONE)"

subsection \<open>Hexadecimal keys\<close>

text \<open>
  \<^verbatim>\<open>isxdigit\<close> of ctype.h: the characters 0-9, A-F and a-f.
\<close>

definition isxdigit :: "byte \<Rightarrow> bool" where
  "isxdigit c = ((0x30 \<le> c \<and> c \<le> 0x39) \<or> (0x41 \<le> c \<and> c \<le> 0x46) \<or> (0x61 \<le> c \<and> c \<le> 0x66))"

definition hex_digit_value :: "byte \<Rightarrow> byte" where
  "hex_digit_value c =
     (if 0x30 \<le> c \<and> c \<le> 0x39 then c - 0x30
      else if 0x41 \<le> c \<and> c \<le> 0x46 then c - 0x41 + 10
      else c - 0x61 + 10)"

text \<open>
  \<^verbatim>\<open>sscanf(&hex[i], "%02x", &c)\<close> where both characters are hexadecimal digits: the
  number the two digits write, the first one the high nibble.
\<close>

definition sscanf_02x :: "byte \<Rightarrow> byte \<Rightarrow> byte" where
  "sscanf_02x hi lo = 16 * hex_digit_value hi + hex_digit_value lo"

text \<open>
  A buffer that \<^verbatim>\<open>getline\<close> filled ends with a zero byte after its content; a read
  at the index of the length is that terminator.
\<close>

definition byte_at :: "byte list \<Rightarrow> nat \<Rightarrow> byte" where
  "byte_at buf i = (if i < length buf then buf ! i else 0)"

function hex_key_to_raw_loop :: "byte list \<Rightarrow> nat \<Rightarrow> nat \<Rightarrow> byte list \<Rightarrow> int \<times> byte list" where
  "hex_key_to_raw_loop hex hexlen i out =
     (if i < hexlen then
        (if \<not> isxdigit (byte_at hex i) \<or> \<not> isxdigit (byte_at hex (i + 1))
         then (EINVAL, out)
         else hex_key_to_raw_loop hex hexlen (i + 2)
                (out[i div 2 := sscanf_02x (byte_at hex i) (byte_at hex (i + 1))]))
      else (0, out))"
  by pat_completeness auto
termination
  by (relation "measure (\<lambda>(hex, hexlen, i, out). hexlen - i)") auto

declare hex_key_to_raw_loop.simps [simp del]

definition hex_key_to_raw :: "byte list \<Rightarrow> nat \<Rightarrow> byte list \<Rightarrow> int \<times> byte list" where
  "hex_key_to_raw hex hexlen out = hex_key_to_raw_loop hex hexlen 0 out"

subsection \<open>Reading key material\<close>

text \<open>
  A stream: the bytes not read yet, whether it is a terminal, whether \<^verbatim>\<open>tcsetattr\<close>
  fails on it, and the value \<^verbatim>\<open>errno\<close> holds after a call on the terminal has failed:
  what \<^verbatim>\<open>tcsetattr\<close> has set, or, at the end of the input, what \<^verbatim>\<open>errno\<close> held before
  (\<^verbatim>\<open>getline\<close> leaves it as it is there).
\<close>

record FILE =
  data :: "byte list"
  tty :: bool
  tc_fail :: bool
  errno_val :: int

text \<open>
  \<^verbatim>\<open>getline\<close>: the bytes up to and including the first newline, or all of them when
  there is none; it fails at the end of the stream.
\<close>

definition getline :: "byte list \<Rightarrow> (byte list \<times> byte list) option" where
  "getline d =
     (if d = [] then None
      else let line = takeWhile (\<lambda>c. c \<noteq> 0x0A) d; rest = dropWhile (\<lambda>c. c \<noteq> 0x0A) d
           in (case rest of [] \<Rightarrow> Some (line, [])
               | c # rest' \<Rightarrow> Some (line @ [c], rest')))"

text \<open>
  The trim of the ending newline, for every key format. With no byte read the source
  reads \<^verbatim>\<open>(*buf)[-1]\<close>, outside the buffer; the model takes that byte not to be a
  newline.
\<close>

definition trim_newline :: "byte list \<Rightarrow> byte list" where
  "trim_newline buf = (if buf \<noteq> [] \<and> last buf = 0x0A then butlast buf else buf)"

text \<open>
  \<^verbatim>\<open>get_key_material_raw\<close> returns the code, the buffer content, its length, and the
  stream after the read. On a stream that is not a terminal \<^verbatim>\<open>isatty\<close> leaves
  \<^verbatim>\<open>ENOTTY\<close> in \<^verbatim>\<open>errno\<close>, and this is the code when \<^verbatim>\<open>getline\<close> then finds the
  stream at its end.
\<close>

definition get_key_material_raw :: "FILE \<Rightarrow> zfs_keyformat_t \<Rightarrow> int \<times> byte list \<times> nat \<times> FILE" where
  "get_key_material_raw fd keyformat =
     (if tty fd \<and> tc_fail fd then (errno_val fd, [], 0, fd)
      else if keyformat \<noteq> ZFS_KEYFORMAT_RAW then
        (case getline (data fd) of
           None \<Rightarrow> (if tty fd then errno_val fd else ENOTTY, [], 0, fd)
         | Some (line, rest) \<Rightarrow>
             (0, trim_newline line, length (trim_newline line), fd\<lparr>data := rest\<rparr>))
      else
        (let buf = take (WRAPPING_KEY_LEN + 1) (data fd)
         in (0, trim_newline buf, length (trim_newline buf),
             fd\<lparr>data := drop (WRAPPING_KEY_LEN + 1) (data fd)\<rparr>)))"

text \<open>
  The state: standard input and the auxiliary message of the library handle.
\<close>

record world =
  stdin :: FILE
  err_aux :: string

text \<open>
  The basic validation of the key material (the \<^verbatim>\<open>switch (keyformat)\<close> of
  \<^verbatim>\<open>get_key_material\<close>): \<open>None\<close> when it passes, else the code and the message.
\<close>

definition validate_key_material :: "zfs_keyformat_t \<Rightarrow> byte list \<Rightarrow> nat \<Rightarrow> (int \<times> string) option" where
  "validate_key_material keyformat km kmlen =
     (if keyformat = ZFS_KEYFORMAT_RAW then
        (if kmlen < WRAPPING_KEY_LEN then Some (EINVAL, ''Raw key too short (expected 32).'')
         else if kmlen > WRAPPING_KEY_LEN then Some (EINVAL, ''Raw key too long (expected 32).'')
         else None)
      else if keyformat = ZFS_KEYFORMAT_HEX then
        (if kmlen < WRAPPING_KEY_LEN * 2 then Some (EINVAL, ''Hex key too short (expected 64).'')
         else if kmlen > WRAPPING_KEY_LEN * 2 then Some (EINVAL, ''Hex key too long (expected 64).'')
         else if \<exists>i \<in> set [0 ..< WRAPPING_KEY_LEN * 2]. \<not> isxdigit (byte_at km i)
           then Some (EINVAL, ''Invalid hex character detected.'')
         else None)
      else if keyformat = ZFS_KEYFORMAT_PASSPHRASE then
        (if kmlen > MAX_PASSPHRASE_LEN then Some (EINVAL, ''Passphrase too long (max 64).'')
         else if kmlen < MIN_PASSPHRASE_LEN then Some (EINVAL, ''Passphrase too short (min 8).'')
         else None)
      else None)"

subsection \<open>Property lists, dataset handles, the environment\<close>

text \<open>
  An \<^verbatim>\<open>nvlist_t\<close> with unique names: pairs of a name and a value, in order. A lookup
  fails with \<^verbatim>\<open>EINVAL\<close> on a null list and with \<^verbatim>\<open>ENOENT\<close> when no pair has the name
  and the type; an addition replaces the pair of the same name.
\<close>

datatype nvvalue = U64 uint64 | Str string

type_synonym nvlist = "(string \<times> nvvalue) list"

definition nvlist_lookup_uint64 :: "nvlist option \<Rightarrow> string \<Rightarrow> int + uint64" where
  "nvlist_lookup_uint64 nvl name =
     (case nvl of None \<Rightarrow> Inl EINVAL
      | Some l \<Rightarrow> (case map_of l name of Some (U64 v) \<Rightarrow> Inr v | _ \<Rightarrow> Inl ENOENT))"

definition nvlist_lookup_string :: "nvlist option \<Rightarrow> string \<Rightarrow> int + string" where
  "nvlist_lookup_string nvl name =
     (case nvl of None \<Rightarrow> Inl EINVAL
      | Some l \<Rightarrow> (case map_of l name of Some (Str v) \<Rightarrow> Inr v | _ \<Rightarrow> Inl ENOENT))"

definition nvlist_add :: "nvlist option \<Rightarrow> string \<Rightarrow> nvvalue \<Rightarrow> int \<times> nvlist option" where
  "nvlist_add nvl name v =
     (case nvl of None \<Rightarrow> (EINVAL, None)
      | Some l \<Rightarrow> (0, Some (filter (\<lambda>p. fst p \<noteq> name) l @ [(name, v)])))"

definition nvlist_exists :: "nvlist option \<Rightarrow> string \<Rightarrow> bool" where
  "nvlist_exists nvl name = (case nvl of None \<Rightarrow> False | Some l \<Rightarrow> name \<in> fst ` set l)"

text \<open>The names \<^verbatim>\<open>zfs_prop_to_name\<close> gives the properties the file uses.\<close>

definition ZFS_PROP_ENCRYPTION :: string where "ZFS_PROP_ENCRYPTION = ''encryption''"
definition ZFS_PROP_KEYFORMAT :: string where "ZFS_PROP_KEYFORMAT = ''keyformat''"
definition ZFS_PROP_KEYLOCATION :: string where "ZFS_PROP_KEYLOCATION = ''keylocation''"
definition ZFS_PROP_PBKDF2_ITERS :: string where "ZFS_PROP_PBKDF2_ITERS = ''pbkdf2iters''"
definition ZFS_PROP_PBKDF2_SALT :: string where "ZFS_PROP_PBKDF2_SALT = ''pbkdf2salt''"

text \<open>
  A pool handle holds what \<^verbatim>\<open>encryption_feature_is_enabled\<close> reads: the pool version
  and the feature list (none when \<^verbatim>\<open>zpool_get_features\<close> gives null). A dataset handle
  holds the dataset's name and its properties as \<^verbatim>\<open>zfs_prop_get_int\<close> and
  \<^verbatim>\<open>zfs_prop_get\<close> give them; for \<^verbatim>\<open>keylocation\<close> that is the return code, the value,
  the type of its source and the name of its source.
\<close>

datatype zprop_source =
  ZPROP_SRC_NONE | ZPROP_SRC_DEFAULT | ZPROP_SRC_TEMPORARY | ZPROP_SRC_LOCAL
  | ZPROP_SRC_INHERITED | ZPROP_SRC_RECEIVED

record zpool_handle =
  pool_version :: uint64
  pool_features :: "nvlist option"

record zfs_handle =
  zfs_name :: string
  zpool_hdl :: zpool_handle
  prop_encryption :: uint64
  prop_keyformat :: uint64
  prop_keystatus :: uint64
  prop_pbkdf2_salt :: uint64
  prop_pbkdf2_iters :: uint64
  keylocation_ret :: int
  keylocation_val :: string
  keylocation_srctype :: zprop_source
  keylocation_src :: string

text \<open>A dataset with its child file systems, as \<^verbatim>\<open>zfs_iter_filesystems\<close> finds them.\<close>

datatype dataset = Dataset zfs_handle "dataset list"

text \<open>
  The environment, one field per collaborator outside the file:
  \<^item> \<^verbatim>\<open>fopen\<close> gives an errno or a fresh stream;
  \<^item> \<^verbatim>\<open>crypto_create_ctx_template\<close> gives its status for a key, and
    \<^verbatim>\<open>crypto_mac\<close> (mechanism \<^verbatim>\<open>SUN_CKM_SHA1_HMAC\<close>) its status and the digest for a
    key and a message;
  \<^item> \<^verbatim>\<open>random_get_bytes\<close> gives its status and the eight bytes read as a
    \<^verbatim>\<open>uint64_t\<close>;
  \<^item> \<^verbatim>\<open>DEFAULT_PBKDF2_ITERATIONS\<close> is a constant declared outside the file;
  \<^item> \<^verbatim>\<open>lzc_load_key\<close> (dataset name, noop, wrapping key) and \<^verbatim>\<open>lzc_change_key\<close>
    (dataset name, properties, wrapping key or none) give the storage layer's code;
  \<^item> \<^verbatim>\<open>make_dataset_handle\<close> and \<^verbatim>\<open>zfs_open\<close> give a handle, or none;
    \<^verbatim>\<open>zfs_parent_name\<close> gives the name of the parent, or none for a dataset without
    one; \<^verbatim>\<open>zfs_valid_proplist\<close> gives the validated list, or none;
  \<^item> \<^verbatim>\<open>uninitialized_ret\<close> is the value the variable \<^verbatim>\<open>ret\<close> of
    \<^verbatim>\<open>zfs_crypto_verify_rewrap_nvlist\<close> holds where the function returns it without
    having assigned it;
  \<^item> \<^verbatim>\<open>after_double_free\<close>: to hand \<^verbatim>\<open>free\<close> a pointer it has freed before is
    undefined behaviour (the C library of the reference platform aborts the process);
    the field gives, for the code and the state at that moment, the code and the state
    with which the call of \<^verbatim>\<open>zfs_crypto_load_key\<close> ends.
\<close>

record env =
  fopen :: "string \<Rightarrow> int + FILE"
  crypto_create_ctx_template :: "byte list \<Rightarrow> int"
  crypto_mac :: "byte list \<Rightarrow> byte list \<Rightarrow> int \<times> byte list"
  random_get_bytes :: "int \<times> uint64"
  DEFAULT_PBKDF2_ITERATIONS :: uint64
  lzc_load_key :: "string \<Rightarrow> bool \<Rightarrow> byte list \<Rightarrow> int"
  lzc_change_key :: "string \<Rightarrow> nvlist option \<Rightarrow> byte list option \<Rightarrow> int"
  make_dataset_handle :: "string \<Rightarrow> zfs_handle option"
  zfs_open :: "string \<Rightarrow> dataset option"
  zfs_parent_name :: "string \<Rightarrow> string option"
  zfs_valid_proplist :: "nvlist \<Rightarrow> nvlist option"
  uninitialized_ret :: int
  after_double_free :: "int \<Rightarrow> world \<Rightarrow> int \<times> world"

text \<open>
  The part of \<^verbatim>\<open>get_key_material\<close> that follows the opening of the stream \<open>fd\<close>;
  \<open>is_stdin\<close> says whether \<open>fd\<close> is standard input, whose reads stay consumed.
  The result is the code, the key material, its length, \<^verbatim>\<open>can_retry\<close> and the state.
\<close>

definition get_key_material_fd ::
  "world \<Rightarrow> bool \<Rightarrow> zfs_keyformat_t \<Rightarrow> FILE \<Rightarrow> bool \<Rightarrow> bool \<Rightarrow> int \<times> byte list \<times> nat \<times> bool \<times> world" where
  "get_key_material_fd w do_verify keyformat fd is_stdin can_retry =
     (case get_key_material_raw fd keyformat of (ret, km, kmlen, fd1) \<Rightarrow>
      let w1 = (if is_stdin then w\<lparr>stdin := fd1\<rparr> else w) in
      if ret \<noteq> 0 then (ret, [], 0, can_retry, w1)
      else (case validate_key_material keyformat km kmlen of
              Some (e, msg) \<Rightarrow> (e, [], 0, can_retry, w1\<lparr>err_aux := msg\<rparr>)
            | None \<Rightarrow>
                if do_verify \<and> tty fd1 then
                  (case get_key_material_raw fd1 keyformat of (ret2, km2, kmlen2, fd2) \<Rightarrow>
                   let w2 = (if is_stdin then w\<lparr>stdin := fd2\<rparr> else w) in
                   if ret2 \<noteq> 0 then (ret2, [], 0, can_retry, w2)
                   else if kmlen2 \<noteq> kmlen \<or> km \<noteq> km2
                     then (EINVAL, [], 0, can_retry, w2\<lparr>err_aux := ''Provided keys do not match.''\<rparr>)
                   else (0, km, kmlen, can_retry, w2))
                else (0, km, kmlen, can_retry, w1)))"

definition get_key_material ::
  "env \<Rightarrow> world \<Rightarrow> bool \<Rightarrow> zfs_keyformat_t \<Rightarrow> string \<Rightarrow> int \<times> byte list \<times> nat \<times> bool \<times> world" where
  "get_key_material E w do_verify keyformat keylocation =
     (case zfs_prop_parse_keylocation keylocation of
        ZFS_KEYLOCATION_PROMPT \<Rightarrow>
          if tty (stdin w) \<and> keyformat = ZFS_KEYFORMAT_RAW
          then (EINVAL, [], 0, True, w\<lparr>err_aux := ''Cannot enter raw keys on the terminal''\<rparr>)
          else get_key_material_fd w do_verify keyformat (stdin w) True (tty (stdin w))
      | ZFS_KEYLOCATION_URI \<Rightarrow>
          (case fopen E (drop 7 keylocation) of
             Inl e \<Rightarrow> (e, [], 0, False, w\<lparr>err_aux := ''Failed to open key material file''\<rparr>)
           | Inr fd \<Rightarrow> get_key_material_fd w do_verify keyformat fd False False)
      | ZFS_KEYLOCATION_NONE \<Rightarrow>
          (EINVAL, [], 0, False, w\<lparr>err_aux := ''Invalid keylocation.''\<rparr>))"

subsection \<open>PBKDF2 and key derivation\<close>

definition CRYPTO_SUCCESS :: int where "CRYPTO_SUCCESS = 0"

text \<open>\<^verbatim>\<open>memmove(buf + off, src, n)\<close> with \<open>n\<close> the length of \<open>src\<close>.\<close>

definition buf_write :: "byte list \<Rightarrow> nat \<Rightarrow> byte list \<Rightarrow> byte list" where
  "buf_write buf off src = take off buf @ src @ drop (off + length src) buf"

text \<open>
  The four bytes in memory of \<^verbatim>\<open>htobe32(v)\<close>, and the eight bytes in memory of
  \<^verbatim>\<open>LE_64(v)\<close>; neither depends on the byte order of the host.
\<close>

definition be32_bytes :: "32 word \<Rightarrow> byte list" where
  "be32_bytes v = [ucast (drop_bit 24 v), ucast (drop_bit 16 v), ucast (drop_bit 8 v), ucast v]"

definition le64_bytes :: "uint64 \<Rightarrow> byte list" where
  "le64_bytes v = map (\<lambda>k. ucast (drop_bit (8 * k) v)) [0 ..< 8]"

text \<open>
  The loop over \<^verbatim>\<open>iter\<close>: the message of the first HMAC is the first
  \<open>saltlen + 4\<close> bytes of \<^verbatim>\<open>hmac_key\<close>, of every later one its first 20 bytes. The
  provider writes \<^verbatim>\<open>SHA1_DIGEST_LEN\<close> bytes to \<^verbatim>\<open>hmacresult\<close>.
\<close>

function pbkdf2_iter_loop ::
  "env \<Rightarrow> byte list \<Rightarrow> nat \<Rightarrow> nat \<Rightarrow> nat \<Rightarrow> byte list \<Rightarrow> byte list \<Rightarrow> int + (byte list \<times> byte list)" where
  "pbkdf2_iter_loop E passphrase saltlen iterations iter hmac_key block =
     (if iter < iterations then
        (let in_len = (if iter > 0 then SHA1_DIGEST_LEN else saltlen + 4)
         in case crypto_mac E passphrase (take in_len hmac_key) of (ret, hmacresult) \<Rightarrow>
              if ret \<noteq> CRYPTO_SUCCESS then Inl EIO
              else pbkdf2_iter_loop E passphrase saltlen iterations (iter + 1)
                     (buf_write hmac_key 0 (take SHA1_DIGEST_LEN hmacresult))
                     (map2 (XOR) block hmacresult))
      else Inr (hmac_key, block))"
  by pat_completeness auto
termination
  by (relation "measure (\<lambda>(E, passphrase, saltlen, iterations, iter, hmac_key, block). iterations - iter)") auto

declare pbkdf2_iter_loop.simps [simp del]

text \<open>
  The main loop over \<^verbatim>\<open>blockptr\<close> (a \<^verbatim>\<open>uint32_t\<close>; the only caller asks for 32
  bytes, so it does not wrap).
\<close>

function pbkdf2_main_loop ::
  "env \<Rightarrow> byte list \<Rightarrow> byte list \<Rightarrow> nat \<Rightarrow> nat \<Rightarrow> nat \<Rightarrow> byte list \<Rightarrow> byte list \<Rightarrow> int \<times> byte list" where
  "pbkdf2_main_loop E passphrase salt iterations outputlen blockptr hmac_key output =
     (if blockptr < outputlen then
        (let i = be32_bytes (of_nat (1 + blockptr div SHA1_DIGEST_LEN));
             hmac_key1 = buf_write (buf_write hmac_key 0 salt) (length salt) i
         in case pbkdf2_iter_loop E passphrase (length salt) iterations 0 hmac_key1
                   (replicate SHA1_DIGEST_LEN 0) of
              Inl e \<Rightarrow> (e, output)
            | Inr (hmac_key2, block) \<Rightarrow>
                pbkdf2_main_loop E passphrase salt iterations outputlen
                  (blockptr + SHA1_DIGEST_LEN) hmac_key2
                  (if blockptr + SHA1_DIGEST_LEN > outputlen
                   then buf_write output blockptr (take (outputlen - blockptr) block)
                   else buf_write output blockptr block))
      else (0, output))"
  by pat_completeness auto
termination
  by (relation "measure (\<lambda>(E, passphrase, salt, iterations, outputlen, blockptr, hmac_key, output). outputlen - blockptr)")
     (auto simp: SHA1_DIGEST_LEN_def)

declare pbkdf2_main_loop.simps [simp del]

definition pbkdf2 :: "env \<Rightarrow> byte list \<Rightarrow> byte list \<Rightarrow> nat \<Rightarrow> nat \<Rightarrow> int \<times> byte list" where
  "pbkdf2 E passphrase salt iterations outputlen =
     (let output = replicate outputlen 0;
          hmac_key_len = (if length salt > SHA1_DIGEST_LEN then length salt + 4 else SHA1_DIGEST_LEN);
          hmac_key = replicate hmac_key_len 0
      in if crypto_create_ctx_template E passphrase \<noteq> CRYPTO_SUCCESS then (EIO, output)
         else pbkdf2_main_loop E passphrase salt iterations outputlen 0 hmac_key output)"

text \<open>
  \<^verbatim>\<open>strlen\<close> on key material: the bytes before the first zero byte (the buffer of a
  passphrase comes from \<^verbatim>\<open>getline\<close>, which ends it with a zero byte).
\<close>

definition strlen :: "byte list \<Rightarrow> nat" where
  "strlen buf = length (takeWhile (\<lambda>c. c \<noteq> 0) buf)"

text \<open>
  \<^verbatim>\<open>derive_key\<close> returns the code, the wrapping key (none on error) and the state.
  Its callers have validated the length of raw and hexadecimal key material.
\<close>

definition derive_key ::
  "env \<Rightarrow> world \<Rightarrow> zfs_keyformat_t \<Rightarrow> uint64 \<Rightarrow> byte list \<Rightarrow> nat \<Rightarrow> uint64
     \<Rightarrow> int \<times> byte list option \<times> world" where
  "derive_key E w format iters key_material key_material_len salt =
     (let key = replicate WRAPPING_KEY_LEN 0 in
      if format = ZFS_KEYFORMAT_RAW then (0, Some (take WRAPPING_KEY_LEN key_material), w)
      else if format = ZFS_KEYFORMAT_HEX then
        (case hex_key_to_raw key_material (WRAPPING_KEY_LEN * 2) key of (ret, key1) \<Rightarrow>
           if ret \<noteq> 0 then (ret, None, w\<lparr>err_aux := ''Invalid hex key provided.''\<rparr>)
           else (0, Some key1, w))
      else if format = ZFS_KEYFORMAT_PASSPHRASE then
        (case pbkdf2 E (take (strlen key_material) key_material) (le64_bytes salt)
                (unat iters) WRAPPING_KEY_LEN of (ret, key1) \<Rightarrow>
           if ret \<noteq> 0 then (ret, None, w\<lparr>err_aux := ''Failed to generate key from passphrase.''\<rparr>)
           else (0, Some key1, w))
      else (EINVAL, None, w))"

subsection \<open>Collecting a new wrapping key\<close>

text \<open>
  \<^verbatim>\<open>populate_create_encryption_params_nvlists\<close> returns the code, the property list
  (it is changed in place, also on the error paths), the wrapping key, its length and
  the state. The last step is \<^verbatim>\<open>derive_key\<close>.
\<close>

definition populate_derive ::
  "env \<Rightarrow> world \<Rightarrow> zfs_keyformat_t \<Rightarrow> uint64 \<Rightarrow> byte list \<Rightarrow> nat \<Rightarrow> uint64 \<Rightarrow> nvlist option
     \<Rightarrow> int \<times> nvlist option \<times> byte list option \<times> nat \<times> world" where
  "populate_derive E w keyformat iters key_material key_material_len salt props =
     (case derive_key E w keyformat iters key_material key_material_len salt of
        (ret, key_data, w1) \<Rightarrow>
          if ret \<noteq> 0 then (ret, props, None, 0, w1)
          else (0, props, key_data, WRAPPING_KEY_LEN, w1))"

definition populate_create_encryption_params_nvlists ::
  "env \<Rightarrow> world \<Rightarrow> zfs_keyformat_t \<Rightarrow> string \<Rightarrow> nvlist option
     \<Rightarrow> int \<times> nvlist option \<times> byte list option \<times> nat \<times> world" where
  "populate_create_encryption_params_nvlists E w keyformat keylocation props =
     (case get_key_material E w True keyformat keylocation of
        (ret, key_material, key_material_len, can_retry, w1) \<Rightarrow>
      if ret \<noteq> 0 then (ret, props, None, 0, w1)
      else if keyformat = ZFS_KEYFORMAT_PASSPHRASE then
        (case random_get_bytes E of (rret, salt) \<Rightarrow>
         if rret \<noteq> 0 then (rret, props, None, 0, w1\<lparr>err_aux := ''Failed to generate salt.''\<rparr>)
         else (case nvlist_add props ZFS_PROP_PBKDF2_SALT (U64 salt) of (aret, props1) \<Rightarrow>
           if aret \<noteq> 0
           then (aret, props1, None, 0, w1\<lparr>err_aux := ''Failed to add salt to properties.''\<rparr>)
           else (case nvlist_lookup_uint64 props1 ZFS_PROP_PBKDF2_ITERS of
                   Inr iters \<Rightarrow>
                     populate_derive E w1 keyformat iters key_material key_material_len salt props1
                 | Inl e \<Rightarrow>
                     if e = ENOENT then
                       (case nvlist_add props1 ZFS_PROP_PBKDF2_ITERS
                               (U64 (DEFAULT_PBKDF2_ITERATIONS E)) of (aret2, props2) \<Rightarrow>
                          if aret2 \<noteq> 0 then (aret2, props2, None, 0, w1)
                          else populate_derive E w1 keyformat (DEFAULT_PBKDF2_ITERATIONS E)
                                 key_material key_material_len salt props2)
                     else (e, props1, None, 0,
                           w1\<lparr>err_aux := ''Failed to get pbkdf2 iterations.''\<rparr>))))
      else
        (case nvlist_lookup_uint64 props ZFS_PROP_PBKDF2_ITERS of
           Inr iters \<Rightarrow>
             (EINVAL, props, None, 0,
              w1\<lparr>err_aux := ''Cannot specify pbkdf2iters with a non-passphrase keyformat.''\<rparr>)
         | Inl e \<Rightarrow> populate_derive E w1 keyformat 0 key_material key_material_len 0 props))"

subsection \<open>The policy of creation and cloning\<close>

definition SPA_VERSION_FEATURES :: uint64 where "SPA_VERSION_FEATURES = 5000"

text \<open>The guid of the encryption feature in \<^verbatim>\<open>spa_feature_table\<close>, declared outside the file.\<close>

definition encryption_feature_guid :: string where
  "encryption_feature_guid = ''com.datto:encryption''"

definition encryption_feature_is_enabled :: "zpool_handle \<Rightarrow> bool" where
  "encryption_feature_is_enabled zph =
     (if pool_version zph < SPA_VERSION_FEATURES then False
      else if pool_features zph = None
              \<or> (case nvlist_lookup_uint64 (pool_features zph) encryption_feature_guid of
                    Inl e \<Rightarrow> True | Inr v \<Rightarrow> False)
        then False
      else True)"

definition proplist_has_encryption_props :: "nvlist option \<Rightarrow> bool" where
  "proplist_has_encryption_props props =
     (if (case nvlist_lookup_uint64 props ZFS_PROP_ENCRYPTION of
            Inr intval \<Rightarrow> intval \<noteq> ZIO_CRYPT_OFF | Inl e \<Rightarrow> False) then True
      else if (case nvlist_lookup_string props ZFS_PROP_KEYLOCATION of
                 Inr strval \<Rightarrow> strval \<noteq> ''none'' | Inl e \<Rightarrow> False) then True
      else if (case nvlist_lookup_uint64 props ZFS_PROP_KEYFORMAT of
                 Inr intval \<Rightarrow> True | Inl e \<Rightarrow> False) then True
      else if (case nvlist_lookup_uint64 props ZFS_PROP_PBKDF2_ITERS of
                 Inr intval \<Rightarrow> True | Inl e \<Rightarrow> False) then True
      else False)"

definition zfs_crypto_is_encryption_root :: "zfs_handle \<Rightarrow> int \<times> bool" where
  "zfs_crypto_is_encryption_root zhp =
     (if prop_encryption zhp = ZIO_CRYPT_OFF then (0, False)
      else if keylocation_ret zhp \<noteq> 0 then (keylocation_ret zhp, False)
      else if keylocation_srctype zhp = ZPROP_SRC_INHERITED then (0, False)
      else (0, True))"

text \<open>
  The variables \<^verbatim>\<open>keyformat\<close> and \<^verbatim>\<open>keylocation\<close> after the lookups in the property
  list: \<^verbatim>\<open>ZFS_KEYFORMAT_NONE\<close> and null where the lookup fails.
\<close>

definition lookup_keyformat :: "nvlist option \<Rightarrow> uint64" where
  "lookup_keyformat props =
     (case nvlist_lookup_uint64 props ZFS_PROP_KEYFORMAT of
        Inr v \<Rightarrow> v | Inl e \<Rightarrow> ZFS_KEYFORMAT_NONE)"

definition lookup_keylocation :: "nvlist option \<Rightarrow> string option" where
  "lookup_keylocation props =
     (case nvlist_lookup_string props ZFS_PROP_KEYLOCATION of
        Inr v \<Rightarrow> Some v | Inl e \<Rightarrow> None)"

text \<open>
  \<^verbatim>\<open>zfs_crypto_create\<close> from the check "encryption being explicitly turned off" to its
  end, with the parent's \<^verbatim>\<open>pcrypt\<close> known. The result is the code, the property
  list, the wrapping key, its length and the state.
\<close>

definition zfs_crypto_create_decide ::
  "env \<Rightarrow> world \<Rightarrow> uint64 \<Rightarrow> nvlist option
     \<Rightarrow> int \<times> nvlist option \<times> byte list option \<times> nat \<times> world" where
  "zfs_crypto_create_decide E w pcrypt props =
     (let local_crypt = (case nvlist_lookup_uint64 props ZFS_PROP_ENCRYPTION of
                           Inr v \<Rightarrow> True | Inl e \<Rightarrow> False);
          crypt0 = (case nvlist_lookup_uint64 props ZFS_PROP_ENCRYPTION of
                      Inr v \<Rightarrow> v | Inl e \<Rightarrow> ZIO_CRYPT_INHERIT);
          keyformat = lookup_keyformat props;
          keylocation = lookup_keylocation props
      in
      if crypt0 = ZIO_CRYPT_OFF \<and> pcrypt \<noteq> ZIO_CRYPT_OFF then
        (EINVAL, props, None, 0,
         w\<lparr>err_aux := ''Invalid encryption value. Dataset must be encrypted.''\<rparr>)
      else
      let crypt = (if \<not> local_crypt then pcrypt else crypt0) in
      if crypt = ZIO_CRYPT_OFF then
        (if proplist_has_encryption_props props then
           (EINVAL, props, None, 0,
            w\<lparr>err_aux := ''Encryption must be turned on to set encryption properties.''\<rparr>)
         else (0, props, None, 0, w))
      else if pcrypt = ZIO_CRYPT_OFF \<and> keylocation = None \<and> keyformat = ZFS_KEYFORMAT_NONE then
        (EINVAL, props, None, 0, w\<lparr>err_aux := ''Keyformat required for new encryption root.''\<rparr>)
      else if keylocation \<noteq> None \<and> keyformat = ZFS_KEYFORMAT_NONE then
        (EINVAL, props, None, 0, w\<lparr>err_aux := ''Keyformat required for new encryption root.''\<rparr>)
      else
      (case (if keyformat \<noteq> ZFS_KEYFORMAT_NONE \<and> keylocation = None
             then (case nvlist_add props ZFS_PROP_KEYLOCATION (Str ''prompt'') of
                     (aret, props1) \<Rightarrow> (aret, Some ''prompt'', props1))
             else (0, keylocation, props)) of
         (aret, keylocation1, props1) \<Rightarrow>
           if aret \<noteq> 0 then (aret, props1, None, 0, w)
           else (case keylocation1 of
                   None \<Rightarrow> (0, props1, None, 0, w)
                 | Some kl \<Rightarrow>
                     (case populate_create_encryption_params_nvlists E w (ucast keyformat) kl props1 of
                        (ret, props2, wkeydata, wkeylen, w1) \<Rightarrow>
                          if ret \<noteq> 0 then (ret, props2, None, 0, w1)
                          else (0, props2, wkeydata, wkeylen, w1)))))"

text \<open>
  \<^verbatim>\<open>zfs_crypto_create\<close>: the parent (none for the root dataset of a new pool, whose
  feature is read from \<^verbatim>\<open>pool_props\<close>), then the decision.
\<close>

definition zfs_crypto_create ::
  "env \<Rightarrow> world \<Rightarrow> string option \<Rightarrow> nvlist option \<Rightarrow> nvlist option
     \<Rightarrow> int \<times> nvlist option \<times> byte list option \<times> nat \<times> world" where
  "zfs_crypto_create E w parent_name props pool_props =
     (case parent_name of
        Some pn \<Rightarrow>
          (case make_dataset_handle E pn of
             None \<Rightarrow> (ENOENT, props, None, 0, w\<lparr>err_aux := ''Failed to lookup parent.''\<rparr>)
           | Some pzhp \<Rightarrow>
               if \<not> encryption_feature_is_enabled (zpool_hdl pzhp) then
                 (if proplist_has_encryption_props props
                  then (EINVAL, props, None, 0, w\<lparr>err_aux := ''Encryption feature not enabled.''\<rparr>)
                  else (0, props, None, 0, w))
               else zfs_crypto_create_decide E w (prop_encryption pzhp) props)
      | None \<Rightarrow>
          if \<not> nvlist_exists pool_props ''feature@encryption'' then
            (if proplist_has_encryption_props props
             then (EINVAL, props, None, 0, w\<lparr>err_aux := ''Encryption feature not enabled.''\<rparr>)
             else (0, props, None, 0, w))
          else zfs_crypto_create_decide E w ZIO_CRYPT_OFF props)"

definition zfs_crypto_clone ::
  "env \<Rightarrow> world \<Rightarrow> zfs_handle \<Rightarrow> string \<Rightarrow> nvlist option
     \<Rightarrow> int \<times> nvlist option \<times> byte list option \<times> nat \<times> world" where
  "zfs_crypto_clone E w origin_zhp parent_name props =
     (case make_dataset_handle E parent_name of
        None \<Rightarrow> (ENOENT, props, None, 0, w\<lparr>err_aux := ''Failed to lookup parent.''\<rparr>)
      | Some pzhp \<Rightarrow>
      let pcrypt = prop_encryption pzhp;
          ocrypt = prop_encryption origin_zhp;
          keyformat = lookup_keyformat props;
          keylocation = lookup_keylocation props
      in
      if (case nvlist_lookup_uint64 props ZFS_PROP_ENCRYPTION of
            Inr v \<Rightarrow> True | Inl e \<Rightarrow> False) then
        (EINVAL, props, None, 0,
         w\<lparr>err_aux := ''Encryption may not be specified during cloning.''\<rparr>)
      else if pcrypt \<noteq> ZIO_CRYPT_OFF \<and> ocrypt = ZIO_CRYPT_OFF then
        (EINVAL, props, None, 0,
         w\<lparr>err_aux := ''Cannot create unencrypted clone as child of encrypted parent.''\<rparr>)
      else if ocrypt = ZIO_CRYPT_OFF then
        (if proplist_has_encryption_props props then
           (EINVAL, props, None, 0,
            w\<lparr>err_aux := ''Encryption properties may not be set for an unencrypted clone.''\<rparr>)
         else (0, props, None, 0, w))
      else if keylocation \<noteq> None \<and> keyformat = ZFS_KEYFORMAT_NONE then
        (EINVAL, props, None, 0, w\<lparr>err_aux := ''Keyformat required for new encryption root.''\<rparr>)
      else
      (case (if keyformat \<noteq> ZFS_KEYFORMAT_NONE \<and> keylocation = None
             then (case nvlist_add props ZFS_PROP_KEYLOCATION (Str ''prompt'') of
                     (aret, props1) \<Rightarrow> (aret, Some ''prompt'', props1))
             else (0, keylocation, props)) of
         (aret, keylocation1, props1) \<Rightarrow>
           if aret \<noteq> 0 then (aret, props1, None, 0, w)
           else if prop_keystatus origin_zhp \<noteq> ZFS_KEYSTATUS_AVAILABLE then
             (EACCES, props1, None, 0, w\<lparr>err_aux := ''Origin wrapping key must be loaded.''\<rparr>)
           else if pcrypt = ZIO_CRYPT_OFF \<and> keyformat = ZFS_KEYFORMAT_NONE then
             (EINVAL, props1, None, 0, w\<lparr>err_aux := ''Keyformat required.''\<rparr>)
           else (case keylocation1 of
                   None \<Rightarrow> (0, props1, None, 0, w)
                 | Some kl \<Rightarrow>
                     (case populate_create_encryption_params_nvlists E w (ucast keyformat) kl props1 of
                        (ret, props2, wkeydata, wkeylen, w1) \<Rightarrow>
                          if ret \<noteq> 0 then (ret, props2, None, 0, w1)
                          else (0, props2, wkeydata, wkeylen, w1)))))"

subsection \<open>Loading a key\<close>

text \<open>
  The pointer \<^verbatim>\<open>key_data\<close> of \<^verbatim>\<open>zfs_crypto_load_key\<close>: null, pointing to the buffer
  of a wrapping key, or still pointing to a buffer that has been freed. To free that one
  again is the fault \<open>Double_free\<close>, with the code and the state of the moment.
\<close>

datatype pointer = Null | Allocated | Freed

datatype fault = Double_free int world

text \<open>
  One pass of \<^verbatim>\<open>zfs_crypto_load_key\<close> from the label \<^verbatim>\<open>try_again\<close> to its return of 0
  or to the label \<^verbatim>\<open>error\<close>: the code, the flags \<^verbatim>\<open>can_retry\<close> and
  \<^verbatim>\<open>correctible\<close> and the pointer \<^verbatim>\<open>key_data\<close> as they stand there, and the state.
  \<^verbatim>\<open>get_key_material\<close> does not touch \<^verbatim>\<open>key_data\<close>; \<^verbatim>\<open>derive_key\<close> sets it to
  null first and to a fresh buffer when it succeeds. (\<^verbatim>\<open>key_material\<close> is set by every
  call of \<^verbatim>\<open>get_key_material\<close>, to null when it fails, so it is never freed twice.)
\<close>

definition load_key_aux :: "int \<Rightarrow> string \<Rightarrow> string \<Rightarrow> string" where
  "load_key_aux ret name old =
     (if ret = EINVAL then ''Invalid parameters provided for '' @ name @ ''.''
      else if ret = EEXIST then ''Key already loaded for '' @ [CHR 0x27] @ name @ [CHR 0x27] @ ''.''
      else if ret = EBUSY then [CHR 0x27] @ name @ [CHR 0x27] @ '' is busy.''
      else if ret = EACCES then ''Incorrect key provided for '' @ [CHR 0x27] @ name @ [CHR 0x27] @ ''.''
      else old)"

definition zfs_crypto_load_key_pass ::
  "env \<Rightarrow> world \<Rightarrow> zfs_handle \<Rightarrow> bool \<Rightarrow> uint64 \<Rightarrow> string \<Rightarrow> uint64 \<Rightarrow> uint64 \<Rightarrow> pointer
     \<Rightarrow> int \<times> bool \<times> bool \<times> pointer \<times> world" where
  "zfs_crypto_load_key_pass E w zhp noop keyformat keylocation iters salt key_data =
     (case get_key_material E w False (ucast keyformat) keylocation of
        (ret, key_material, key_material_len, can_retry, w1) \<Rightarrow>
      if ret \<noteq> 0 then (ret, can_retry, True, key_data, w1)
      else (case derive_key E w1 (ucast keyformat) iters key_material key_material_len salt of
              (ret, key, w2) \<Rightarrow>
            if ret \<noteq> 0 then (ret, can_retry, True, Null, w2)
            else (let ret = lzc_load_key E (zfs_name zhp) noop
                              (case key of Some k \<Rightarrow> k | None \<Rightarrow> [])
                  in if ret \<noteq> 0
                     then (ret, can_retry, ret = EACCES, Allocated,
                           w2\<lparr>err_aux := load_key_aux ret (zfs_name zhp) (err_aux w2)\<rparr>)
                     else (0, can_retry, False, Allocated, w2))))"

text \<open>
  The label \<^verbatim>\<open>error\<close> and the retry: \<^verbatim>\<open>key_data\<close> is freed unless it is null, and
  keeps its value; \<^verbatim>\<open>attempts\<close> counts the retries made so far.
\<close>

function zfs_crypto_load_key_try ::
  "env \<Rightarrow> world \<Rightarrow> zfs_handle \<Rightarrow> bool \<Rightarrow> uint64 \<Rightarrow> string \<Rightarrow> uint64 \<Rightarrow> uint64 \<Rightarrow> int \<Rightarrow> pointer
     \<Rightarrow> fault + int \<times> world" where
  "zfs_crypto_load_key_try E w zhp noop keyformat keylocation iters salt attempts key_data =
     (case zfs_crypto_load_key_pass E w zhp noop keyformat keylocation iters salt key_data of
        (ret, can_retry, correctible, key_data1, w1) \<Rightarrow>
          if ret = 0 then Inr (0, w1)
          else if key_data1 = Freed then Inl (Double_free ret w1)
          else if can_retry \<and> correctible \<and> attempts \<le> MAX_KEY_PROMPT_ATTEMPTS
            then zfs_crypto_load_key_try E w1 zhp noop keyformat keylocation iters salt
                   (attempts + 1) (if key_data1 = Null then Null else Freed)
          else Inr (ret, w1))"
  by pat_completeness auto
termination
  by (relation "measure (\<lambda>(E, w, zhp, noop, keyformat, keylocation, iters, salt, attempts, key_data).
                   nat (MAX_KEY_PROMPT_ATTEMPTS + 1 - attempts))") auto

declare zfs_crypto_load_key_try.simps [simp del]

text \<open>
  \<^verbatim>\<open>zfs_crypto_load_key\<close>: the checks before the label \<^verbatim>\<open>try_again\<close>, which go to
  the label \<^verbatim>\<open>error\<close> with both pointers null and \<^verbatim>\<open>can_retry\<close> false, then the
  passes.
\<close>

definition zfs_crypto_load_key ::
  "env \<Rightarrow> world \<Rightarrow> zfs_handle \<Rightarrow> bool \<Rightarrow> string option \<Rightarrow> int \<times> world" where
  "zfs_crypto_load_key E w zhp noop alt_keylocation =
     (if \<not> encryption_feature_is_enabled (zpool_hdl zhp) then
        (EINVAL, w\<lparr>err_aux := ''Encryption feature not enabled.''\<rparr>)
      else if prop_keyformat zhp = ZFS_KEYFORMAT_NONE then
        (EINVAL, w\<lparr>err_aux := [CHR 0x27] @ zfs_name zhp @ [CHR 0x27] @ '' is not encrypted.''\<rparr>)
      else if keylocation_ret zhp \<noteq> 0 then
        (keylocation_ret zhp,
         w\<lparr>err_aux := ''Failed to get keylocation for '' @ [CHR 0x27] @ zfs_name zhp @ [CHR 0x27] @ ''.''\<rparr>)
      else if keylocation_srctype zhp = ZPROP_SRC_INHERITED then
        (EINVAL,
         w\<lparr>err_aux := ''Keys must be loaded for encryption root of '' @ [CHR 0x27] @ zfs_name zhp
                         @ [CHR 0x27] @ '' ('' @ keylocation_src zhp @ '').''\<rparr>)
      else
      let keylocation = (case alt_keylocation of Some a \<Rightarrow> a | None \<Rightarrow> keylocation_val zhp) in
      if \<not> noop \<and> prop_keystatus zhp = ZFS_KEYSTATUS_AVAILABLE then
        (EEXIST,
         w\<lparr>err_aux := ''Key already loaded for '' @ [CHR 0x27] @ zfs_name zhp @ [CHR 0x27] @ ''.''\<rparr>)
      else
      let salt = (if prop_keyformat zhp = ZFS_KEYFORMAT_PASSPHRASE then prop_pbkdf2_salt zhp else 0);
          iters = (if prop_keyformat zhp = ZFS_KEYFORMAT_PASSPHRASE then prop_pbkdf2_iters zhp else 0)
      in (case zfs_crypto_load_key_try E w zhp noop (prop_keyformat zhp) keylocation iters salt
                 0 Null of
            Inr r \<Rightarrow> r
          | Inl (Double_free ret w1) \<Rightarrow> after_double_free E ret w1))"

subsection \<open>Loading the keys of a tree\<close>

text \<open>
  \<^verbatim>\<open>load_keys_cb\<close> works on the counters \<^verbatim>\<open>cb_numfailed\<close> and \<^verbatim>\<open>cb_numattempted\<close>
  (\<^verbatim>\<open>uint64_t\<close>; the number of datasets stays far below \<open>2 ^ 64\<close>) and on the state.
  \<^verbatim>\<open>zfs_iter_filesystems\<close>, whose code is outside the file, calls the callback on every
  child in turn and stops at the first call that does not return 0.
\<close>

record loadkey_cbdata =
  cb_numfailed :: nat
  cb_numattempted :: nat

fun load_keys_cb :: "env \<Rightarrow> dataset \<Rightarrow> loadkey_cbdata \<times> world \<Rightarrow> int \<times> loadkey_cbdata \<times> world"
  and zfs_iter_filesystems ::
    "env \<Rightarrow> dataset list \<Rightarrow> loadkey_cbdata \<times> world \<Rightarrow> int \<times> loadkey_cbdata \<times> world" where
  "load_keys_cb E (Dataset zhp children) (cb, w) =
     (let s1 =
        (case zfs_crypto_is_encryption_root zhp of (ret, is_encroot) \<Rightarrow>
           if ret \<noteq> 0 \<or> \<not> is_encroot then (cb, w)
           else if prop_keystatus zhp = ZFS_KEYSTATUS_AVAILABLE then (cb, w)
           else (case zfs_crypto_load_key E w zhp False None of (ret, w1) \<Rightarrow>
                   (if ret \<noteq> 0
                    then cb\<lparr>cb_numattempted := cb_numattempted cb + 1,
                            cb_numfailed := cb_numfailed cb + 1\<rparr>
                    else cb\<lparr>cb_numattempted := cb_numattempted cb + 1\<rparr>, w1)))
      in (case zfs_iter_filesystems E children s1 of (ret, s2) \<Rightarrow> (0, s2)))"
| "zfs_iter_filesystems E [] s = (0, s)"
| "zfs_iter_filesystems E (child # rest) s =
     (case load_keys_cb E child s of (ret, s1) \<Rightarrow>
        if ret \<noteq> 0 then (ret, s1) else zfs_iter_filesystems E rest s1)"

text \<open>
  \<^verbatim>\<open>zfs_crypto_attempt_load_keys\<close> returns the code, the two numbers it prints (keys
  loaded and keys attempted; none when it prints nothing) and the state.
\<close>

definition zfs_crypto_attempt_load_keys ::
  "env \<Rightarrow> world \<Rightarrow> string \<Rightarrow> int \<times> (nat \<times> nat) option \<times> world" where
  "zfs_crypto_attempt_load_keys E w fsname =
     (case zfs_open E fsname of
        None \<Rightarrow> (ENOENT, None, w)
      | Some zhp \<Rightarrow>
          (case load_keys_cb E zhp (\<lparr>cb_numfailed = 0, cb_numattempted = 0\<rparr>, w) of
             (ret, cb, w1) \<Rightarrow>
               if ret \<noteq> 0 then (ret, None, w1)
               else if cb_numfailed cb \<noteq> 0
                 then (-1, Some (cb_numattempted cb - cb_numfailed cb, cb_numattempted cb), w1)
               else (0, Some (cb_numattempted cb - cb_numfailed cb, cb_numattempted cb), w1)))"

subsection \<open>Changing a key\<close>





subsection \<open>The walk over a tree, as specified\<close>




subsection \<open>The decoding of a hexadecimal key, as specified\<close>

text \<open>
  Two characters per byte, the first one the high nibble; to compare
  \<^verbatim>\<open>hex_key_to_raw\<close> with.
\<close>

definition hex_decode :: "byte list \<Rightarrow> byte list" where
  "hex_decode km =
     map (\<lambda>k. 16 * hex_digit_value (km ! (2 * k)) + hex_digit_value (km ! (2 * k + 1)))
       [0 ..< length km div 2]"

subsection \<open>PBKDF2, as specified\<close>

text \<open>
  The construction in the words of the specification, over a function \<open>H\<close> for the HMAC:
  \<open>pbkdf2_U H P S i j\<close> is the value \<open>U\<close> with the number \<open>j + 1\<close> of the block with index
  \<open>i\<close>, the block \<open>pbkdf2_T H P S c i\<close> is the exclusive or of the first \<open>c\<close> of these
  values (of no value at all it is 20 zero bytes), and the output is the concatenation of
  the blocks with the indices from 1, cut to the length asked for.
\<close>

definition xor_bytes :: "byte list \<Rightarrow> byte list \<Rightarrow> byte list" where
  "xor_bytes a b = map2 (XOR) a b"

fun pbkdf2_U :: "(byte list \<Rightarrow> byte list \<Rightarrow> byte list) \<Rightarrow> byte list \<Rightarrow> byte list \<Rightarrow> nat \<Rightarrow> nat \<Rightarrow> byte list" where
  "pbkdf2_U H P S i 0 = H P (S @ be32_bytes (of_nat i))"
| "pbkdf2_U H P S i (Suc j) = H P (pbkdf2_U H P S i j)"

definition pbkdf2_T :: "(byte list \<Rightarrow> byte list \<Rightarrow> byte list) \<Rightarrow> byte list \<Rightarrow> byte list \<Rightarrow> nat \<Rightarrow> nat \<Rightarrow> byte list" where
  "pbkdf2_T H P S c i = foldl xor_bytes (replicate 20 0) (map (pbkdf2_U H P S i) [0 ..< c])"

definition pbkdf2_hmac :: "(byte list \<Rightarrow> byte list \<Rightarrow> byte list) \<Rightarrow> byte list \<Rightarrow> byte list \<Rightarrow> nat \<Rightarrow> nat \<Rightarrow> byte list" where
  "pbkdf2_hmac H P S c dklen =
     take dklen (concat (map (pbkdf2_T H P S c) [1 ..< Suc ((dklen + 19) div 20)]))"

section \<open>Environments and inputs for the examples\<close>

text \<open>
  An environment whose provider never fails and computes the digest \<open>H\<close>, with the
  files \<open>files\<close> and the storage layer's load primitive \<open>load\<close>; no dataset can be
  looked up in it.
\<close>

definition working_env ::
  "(string \<Rightarrow> int + FILE) \<Rightarrow> (byte list \<Rightarrow> byte list \<Rightarrow> byte list) \<Rightarrow> (string \<Rightarrow> bool \<Rightarrow> byte list \<Rightarrow> int) \<Rightarrow> env" where
  "working_env files H load =
     \<lparr>fopen = files,
      crypto_create_ctx_template = (\<lambda>k. CRYPTO_SUCCESS),
      crypto_mac = (\<lambda>k d. (CRYPTO_SUCCESS, H k d)),
      random_get_bytes = (0, 0x0123456789ABCDEF),
      DEFAULT_PBKDF2_ITERATIONS = 350000,
      lzc_load_key = load,
      lzc_change_key = (\<lambda>name props wkey. 0),
      make_dataset_handle = (\<lambda>name. None),
      zfs_open = (\<lambda>name. None),
      zfs_parent_name = (\<lambda>name. None),
      zfs_valid_proplist = (\<lambda>props. Some props),
      uninitialized_ret = 0,
      after_double_free = (\<lambda>ret w. (ret, w))\<rparr>"

definition no_files :: "string \<Rightarrow> int + FILE" where
  "no_files path = Inl ENOENT"

definition disk_file :: "byte list \<Rightarrow> FILE" where
  "disk_file d = \<lparr>data = d, tty = False, tc_fail = False, errno_val = ENOTTY\<rparr>"

definition terminal :: "byte list \<Rightarrow> FILE" where
  "terminal d = \<lparr>data = d, tty = True, tc_fail = False, errno_val = 0\<rparr>"

text \<open>A digest of 20 bytes that is not HMAC-SHA1, for examples that only need a provider.\<close>

definition sum_mac :: "byte list \<Rightarrow> byte list \<Rightarrow> byte list" where
  "sum_mac k d = map (\<lambda>i. byte_at k i + byte_at d i + of_nat i) [0 ..< 20]"

text \<open>
  A pool with the encryption feature, a dataset without encryption, an encryption root,
  and an environment that knows a list of datasets by their names.
\<close>

definition example_pool :: zpool_handle where
  "example_pool = \<lparr>pool_version = 5000, pool_features = Some [(encryption_feature_guid, U64 0)]\<rparr>"

definition plain_dataset :: "string \<Rightarrow> zfs_handle" where
  "plain_dataset name =
     \<lparr>zfs_name = name, zpool_hdl = example_pool, prop_encryption = ZIO_CRYPT_OFF,
      prop_keyformat = ZFS_KEYFORMAT_NONE, prop_keystatus = ZFS_KEYSTATUS_NONE,
      prop_pbkdf2_salt = 0, prop_pbkdf2_iters = 0, keylocation_ret = 0,
      keylocation_val = ''none'', keylocation_srctype = ZPROP_SRC_DEFAULT, keylocation_src = []\<rparr>"

definition encryption_root :: "string \<Rightarrow> uint64 \<Rightarrow> string \<Rightarrow> uint64 \<Rightarrow> zfs_handle" where
  "encryption_root name keyformat keylocation keystatus =
     \<lparr>zfs_name = name, zpool_hdl = example_pool, prop_encryption = ZIO_CRYPT_ON,
      prop_keyformat = keyformat, prop_keystatus = keystatus,
      prop_pbkdf2_salt = 0x1122334455667788, prop_pbkdf2_iters = 1, keylocation_ret = 0,
      keylocation_val = keylocation, keylocation_srctype = ZPROP_SRC_LOCAL, keylocation_src = name\<rparr>"

definition with_datasets :: "env \<Rightarrow> zfs_handle list \<Rightarrow> env" where
  "with_datasets E hs = E\<lparr>make_dataset_handle := (\<lambda>name. find (\<lambda>h. zfs_name h = name) hs)\<rparr>"


definition inheriting_dataset :: "string \<Rightarrow> string \<Rightarrow> uint64 \<Rightarrow> zfs_handle" where
  "inheriting_dataset name root keystatus =
     \<lparr>zfs_name = name, zpool_hdl = example_pool, prop_encryption = ZIO_CRYPT_ON,
      prop_keyformat = ZFS_KEYFORMAT_HEX, prop_keystatus = keystatus,
      prop_pbkdf2_salt = 0, prop_pbkdf2_iters = 0, keylocation_ret = 0,
      keylocation_val = ''prompt'', keylocation_srctype = ZPROP_SRC_INHERITED,
      keylocation_src = root\<rparr>"

definition with_tree :: "env \<Rightarrow> string \<Rightarrow> dataset \<Rightarrow> env" where
  "with_tree E name t = E\<lparr>zfs_open := (\<lambda>n. if n = name then Some t else None)\<rparr>"

definition example_tree :: dataset where
  "example_tree =
     Dataset (plain_dataset ''tank'')
       [Dataset (encryption_root ''tank/a'' ZFS_KEYFORMAT_HEX ''file:///a.key'' ZFS_KEYSTATUS_UNAVAILABLE)
          [Dataset (inheriting_dataset ''tank/a/x'' ''tank/a'' ZFS_KEYSTATUS_UNAVAILABLE) []],
        Dataset (encryption_root ''tank/b'' ZFS_KEYFORMAT_HEX ''prompt'' ZFS_KEYSTATUS_AVAILABLE) [],
        Dataset (encryption_root ''tank/c'' ZFS_KEYFORMAT_HEX ''file:///c.key'' ZFS_KEYSTATUS_UNAVAILABLE) []]"

text \<open>Bytes of a text, and two inputs typed at a terminal.\<close>

definition ascii :: "string \<Rightarrow> byte list" where
  "ascii s = map (\<lambda>c. of_nat (of_char c)) s"

definition nl :: byte where "nl = 0x0A"

definition six_wrong_entries :: "byte list" where
  "six_wrong_entries =
     ascii ''wrongpw1'' @ [nl] @ ascii ''wrongpw2'' @ [nl] @ ascii ''wrongpw3'' @ [nl]
     @ ascii ''wrongpw4'' @ [nl] @ ascii ''wrongpw5'' @ [nl] @ ascii ''wrongpw6'' @ [nl]"

definition short_then_long :: "byte list" where
  "short_then_long = ascii ''short'' @ [nl] @ ascii ''longenough'' @ [nl]"

text \<open>A file system with one file, and a line of 64 hexadecimal digits.\<close>

definition one_file :: "string \<Rightarrow> byte list \<Rightarrow> string \<Rightarrow> int + FILE" where
  "one_file path content p = (if p = path then Inr (disk_file content) else Inl ENOENT)"

definition hex_line :: "byte list" where
  "hex_line = concat (replicate 32 (ascii ''a5''))"

text \<open>Key material of nine bytes with a zero byte in it.\<close>

definition nul_passphrase :: "byte list" where
  "nul_passphrase = ascii ''abc'' @ [0] @ ascii ''defgh''"

text \<open>
  A wrong passphrase followed by one that is too short, and an environment whose
  provider refuses every key.
\<close>

definition wrong_then_short :: "byte list" where
  "wrong_then_short = ascii ''wrongpw1'' @ [nl] @ ascii ''short'' @ [nl]"

definition failing_provider :: "env \<Rightarrow> env" where
  "failing_provider E = E\<lparr>crypto_create_ctx_template := (\<lambda>k. 1)\<rparr>"

section \<open>Properties\<close>

subsection \<open>PBKDF2 with no iteration\<close>

lemma pbkdf2_zero_iterations:
  assumes "crypto_create_ctx_template E passphrase = CRYPTO_SUCCESS"
  shows "pbkdf2 E passphrase salt 0 WRAPPING_KEY_LEN = (0, replicate WRAPPING_KEY_LEN 0)"
proof -
  have z1: "buf_write (replicate 32 0) 0 (replicate 20 (0::byte)) = replicate 32 0"
    by (simp add: buf_write_def flip: replicate_add)
  have z2: "buf_write (replicate 32 0) 20 (replicate 12 (0::byte)) = replicate 32 0"
    by (simp add: buf_write_def flip: replicate_add)
  have it: "\<And>hk. pbkdf2_iter_loop E passphrase (length salt) 0 0 hk (replicate 20 0)
                = Inr (hk, replicate 20 0)"
    by (subst pbkdf2_iter_loop.simps) simp
  have s40: "\<And>hk out. pbkdf2_main_loop E passphrase salt 0 32 40 hk out = (0, out)"
    by (subst pbkdf2_main_loop.simps) simp
  have s20: "\<And>hk. pbkdf2_main_loop E passphrase salt 0 32 20 hk (replicate 32 0)
                = (0, replicate 32 0)"
    by (subst pbkdf2_main_loop.simps) (simp add: SHA1_DIGEST_LEN_def Let_def s40 z2 it)
  have s0: "\<And>hk. pbkdf2_main_loop E passphrase salt 0 32 0 hk (replicate 32 0)
               = (0, replicate 32 0)"
    by (subst pbkdf2_main_loop.simps) (simp add: SHA1_DIGEST_LEN_def Let_def s20 z1 it)
  show ?thesis
    using assms by (simp add: pbkdf2_def WRAPPING_KEY_LEN_def Let_def s0)
qed

text \<open>
  Claim C10. With an iteration count of 0 the loop over \<^verbatim>\<open>iter\<close> never runs: for every
  passphrase and every salt \<^verbatim>\<open>pbkdf2\<close> returns 0 and leaves the 32 bytes of the output
  at the zeroes of its \<^verbatim>\<open>memset\<close>, and \<^verbatim>\<open>derive_key\<close> with the passphrase format
  returns 0 with that key: nothing in the derivation refuses the count 0. The provider
  is only asked for its context template, which is assumed to succeed.
\<close>

theorem derive_key_zero_iterations:
  assumes "crypto_create_ctx_template E passphrase = CRYPTO_SUCCESS"
    and "passphrase = take (strlen key_material) key_material"
  shows "pbkdf2 E passphrase salt_bytes 0 WRAPPING_KEY_LEN = (0, replicate 32 0)
       \<and> derive_key E w ZFS_KEYFORMAT_PASSPHRASE 0 key_material key_material_len salt
           = (0, Some (replicate 32 0), w)"
  using pbkdf2_zero_iterations [OF assms(1), of salt_bytes]
    pbkdf2_zero_iterations [OF assms(1), of "le64_bytes salt"] assms(2)
  by (simp add: derive_key_def ZFS_KEYFORMAT_PASSPHRASE_def ZFS_KEYFORMAT_RAW_def
      ZFS_KEYFORMAT_HEX_def WRAPPING_KEY_LEN_def)

theorem derive_key_zero_iterations_witness:
  "pbkdf2 (working_env no_files sum_mac (\<lambda>n b k. 0)) [0x70, 0x77] [1, 2, 3] 0 WRAPPING_KEY_LEN
     = (0, replicate 32 0)
   \<and> derive_key (working_env no_files sum_mac (\<lambda>n b k. 0)) \<lparr>stdin = terminal [], err_aux = []\<rparr>
       ZFS_KEYFORMAT_PASSPHRASE 0 [0x70, 0x77, 0, 0x41] 4 0x1122334455667788
     = (0, Some (replicate 32 0), \<lparr>stdin = terminal [], err_aux = []\<rparr>)"
  by (rule derive_key_zero_iterations) (simp_all add: working_env_def strlen_def)

subsection \<open>Creation: keyformat and keylocation\<close>

lemma map_of_nvlist_add:
  "([n \<mapsto> v] ++ map_of (filter (\<lambda>p. fst p \<noteq> n) l)) k = (if k = n then Some v else map_of l k)"
  by (induction l) (auto simp: map_add_def split: option.splits)

lemma nvlist_lookup_string_add_other:
  "name \<noteq> name' \<Longrightarrow>
   nvlist_lookup_string (snd (nvlist_add props name' v)) name = nvlist_lookup_string props name"
  by (cases props) (simp_all add: nvlist_lookup_string_def nvlist_add_def map_of_nvlist_add)

lemma nvlist_lookup_string_add_same:
  "props \<noteq> None \<Longrightarrow>
   nvlist_lookup_string (snd (nvlist_add props name (Str v))) name = Inr v"
  by (cases props) (simp_all add: nvlist_lookup_string_def nvlist_add_def map_of_nvlist_add)

lemma populate_derive_props:
  "fst (snd (populate_derive E w keyformat iters km kmlen salt props)) = props"
  by (simp add: populate_derive_def split: prod.splits)

lemma populate_keeps_keylocation:
  "nvlist_lookup_string
     (fst (snd (populate_create_encryption_params_nvlists E w keyformat keylocation props)))
     ZFS_PROP_KEYLOCATION
   = nvlist_lookup_string props ZFS_PROP_KEYLOCATION"
proof -
  have a: "ZFS_PROP_KEYLOCATION \<noteq> ZFS_PROP_PBKDF2_SALT" "ZFS_PROP_KEYLOCATION \<noteq> ZFS_PROP_PBKDF2_ITERS"
    by (simp_all add: ZFS_PROP_KEYLOCATION_def ZFS_PROP_PBKDF2_SALT_def ZFS_PROP_PBKDF2_ITERS_def)
  have s: "\<And>p v. nvlist_lookup_string (snd (nvlist_add p ZFS_PROP_PBKDF2_SALT v)) ZFS_PROP_KEYLOCATION
      = nvlist_lookup_string p ZFS_PROP_KEYLOCATION"
    by (rule nvlist_lookup_string_add_other [OF a(1)])
  have i: "\<And>p v. nvlist_lookup_string (snd (nvlist_add p ZFS_PROP_PBKDF2_ITERS v)) ZFS_PROP_KEYLOCATION
      = nvlist_lookup_string p ZFS_PROP_KEYLOCATION"
    by (rule nvlist_lookup_string_add_other [OF a(2)])
  show ?thesis
    unfolding populate_create_encryption_params_nvlists_def
    by (simp add: case_prod_beta populate_derive_props s i split: sum.splits)
qed

lemma zfs_crypto_create_reaches_decide:
  assumes "(\<exists>pn pzhp. parent_name = Some pn \<and> make_dataset_handle E pn = Some pzhp
              \<and> encryption_feature_is_enabled (zpool_hdl pzhp) \<and> pcrypt = prop_encryption pzhp)
           \<or> (parent_name = None \<and> nvlist_exists pool_props ''feature@encryption''
              \<and> pcrypt = ZIO_CRYPT_OFF)"
  shows "zfs_crypto_create E w parent_name props pool_props = zfs_crypto_create_decide E w pcrypt props"
  using assms by (auto simp: zfs_crypto_create_def)

lemma lookup_keyformat_null: "lookup_keyformat None = ZFS_KEYFORMAT_NONE"
  by (simp add: lookup_keyformat_def nvlist_lookup_uint64_def)

text \<open>
  Claim C6. In \<^verbatim>\<open>zfs_crypto_create\<close>, once the encryption feature is found enabled
  (through the parent, or through \<^verbatim>\<open>pool_props\<close> for a root dataset, whose \<^verbatim>\<open>pcrypt\<close>
  is off) and the effective encryption (the explicit value, else the parent's) is not
  off:
  \<^item> a keylocation with no keyformat (the variable \<^verbatim>\<open>keyformat\<close> is
    \<^verbatim>\<open>ZFS_KEYFORMAT_NONE\<close>: absent, or given as none) is rejected with \<^verbatim>\<open>EINVAL\<close>;
  \<^item> a keyformat with no keylocation adds the keylocation \<^verbatim>\<open>prompt\<close> to the property
    list, where it stays whatever the key collection that follows returns, and the key
    is collected from the prompt;
  \<^item> a parent that is not encrypted with neither keyformat nor keylocation is rejected
    with \<^verbatim>\<open>EINVAL\<close> and the message that a keyformat is required.
\<close>

theorem create_keyformat_keylocation_rules:
  assumes reach:
      "(\<exists>pn pzhp. parent_name = Some pn \<and> make_dataset_handle E pn = Some pzhp
              \<and> encryption_feature_is_enabled (zpool_hdl pzhp) \<and> pcrypt = prop_encryption pzhp)
           \<or> (parent_name = None \<and> nvlist_exists pool_props ''feature@encryption''
              \<and> pcrypt = ZIO_CRYPT_OFF)"
    and eff: "(case nvlist_lookup_uint64 props ZFS_PROP_ENCRYPTION of
                 Inr v \<Rightarrow> v | Inl e \<Rightarrow> pcrypt) \<noteq> ZIO_CRYPT_OFF"
  shows "(lookup_keylocation props \<noteq> None \<and> lookup_keyformat props = ZFS_KEYFORMAT_NONE \<longrightarrow>
            zfs_crypto_create E w parent_name props pool_props
              = (EINVAL, props, None, 0,
                 w\<lparr>err_aux := ''Keyformat required for new encryption root.''\<rparr>))
       \<and> (lookup_keyformat props \<noteq> ZFS_KEYFORMAT_NONE \<and> lookup_keylocation props = None \<longrightarrow>
            nvlist_lookup_string (fst (snd (zfs_crypto_create E w parent_name props pool_props)))
                ZFS_PROP_KEYLOCATION = Inr ''prompt''
            \<and> zfs_crypto_create E w parent_name props pool_props
              = (case populate_create_encryption_params_nvlists E w (ucast (lookup_keyformat props))
                        ''prompt'' (snd (nvlist_add props ZFS_PROP_KEYLOCATION (Str ''prompt''))) of
                   (ret, props2, wkeydata, wkeylen, w1) \<Rightarrow>
                     if ret \<noteq> 0 then (ret, props2, None, 0, w1)
                     else (0, props2, wkeydata, wkeylen, w1)))
       \<and> (pcrypt = ZIO_CRYPT_OFF \<and> lookup_keylocation props = None
            \<and> lookup_keyformat props = ZFS_KEYFORMAT_NONE \<longrightarrow>
            zfs_crypto_create E w parent_name props pool_props
              = (EINVAL, props, None, 0,
                 w\<lparr>err_aux := ''Keyformat required for new encryption root.''\<rparr>))"
proof -
  note c = zfs_crypto_create_reaches_decide [OF reach]
  have p1: "lookup_keylocation props \<noteq> None \<and> lookup_keyformat props = ZFS_KEYFORMAT_NONE \<longrightarrow>
            zfs_crypto_create_decide E w pcrypt props
              = (EINVAL, props, None, 0,
                 w\<lparr>err_aux := ''Keyformat required for new encryption root.''\<rparr>)"
    using eff by (cases "nvlist_lookup_uint64 props ZFS_PROP_ENCRYPTION")
      (simp_all add: zfs_crypto_create_decide_def Let_def ZIO_CRYPT_INHERIT_def ZIO_CRYPT_OFF_def)
  have p3: "pcrypt = ZIO_CRYPT_OFF \<and> lookup_keylocation props = None
            \<and> lookup_keyformat props = ZFS_KEYFORMAT_NONE \<longrightarrow>
            zfs_crypto_create_decide E w pcrypt props
              = (EINVAL, props, None, 0,
                 w\<lparr>err_aux := ''Keyformat required for new encryption root.''\<rparr>)"
    using eff by (cases "nvlist_lookup_uint64 props ZFS_PROP_ENCRYPTION")
      (simp_all add: zfs_crypto_create_decide_def Let_def ZIO_CRYPT_INHERIT_def ZIO_CRYPT_OFF_def)
  have p2b: "lookup_keyformat props \<noteq> ZFS_KEYFORMAT_NONE \<and> lookup_keylocation props = None \<longrightarrow>
        zfs_crypto_create_decide E w pcrypt props
          = (case populate_create_encryption_params_nvlists E w (ucast (lookup_keyformat props))
                    ''prompt'' (snd (nvlist_add props ZFS_PROP_KEYLOCATION (Str ''prompt''))) of
               (ret, props2, wkeydata, wkeylen, w1) \<Rightarrow>
                 if ret \<noteq> 0 then (ret, props2, None, 0, w1)
                 else (0, props2, wkeydata, wkeylen, w1))"
  proof (cases props)
    case None
    then show ?thesis by (simp add: lookup_keyformat_null)
  next
    case (Some l)
    then show ?thesis
      using eff by (cases "nvlist_lookup_uint64 props ZFS_PROP_ENCRYPTION")
        (simp_all add: zfs_crypto_create_decide_def Let_def nvlist_add_def
          ZIO_CRYPT_INHERIT_def ZIO_CRYPT_OFF_def)
  qed
  have p2a: "lookup_keyformat props \<noteq> ZFS_KEYFORMAT_NONE \<and> lookup_keylocation props = None \<longrightarrow>
        nvlist_lookup_string (fst (snd (zfs_crypto_create_decide E w pcrypt props)))
          ZFS_PROP_KEYLOCATION = Inr ''prompt''"
  proof (intro impI)
    assume h: "lookup_keyformat props \<noteq> ZFS_KEYFORMAT_NONE \<and> lookup_keylocation props = None"
    then have nn: "props \<noteq> None" using lookup_keyformat_null by (cases props) simp_all
    have "fst (snd (zfs_crypto_create_decide E w pcrypt props))
        = fst (snd (populate_create_encryption_params_nvlists E w (ucast (lookup_keyformat props))
                    ''prompt'' (snd (nvlist_add props ZFS_PROP_KEYLOCATION (Str ''prompt'')))))"
      using p2b h by (simp add: case_prod_beta)
    then show "nvlist_lookup_string (fst (snd (zfs_crypto_create_decide E w pcrypt props)))
          ZFS_PROP_KEYLOCATION = Inr ''prompt''"
      by (simp add: populate_keeps_keylocation nvlist_lookup_string_add_same [OF nn])
  qed
  show ?thesis
    unfolding c using p1 p2a p2b p3 by blast
qed

lemma example_pool_enabled: "encryption_feature_is_enabled example_pool"
  by (simp add: encryption_feature_is_enabled_def example_pool_def SPA_VERSION_FEATURES_def
      nvlist_lookup_uint64_def)

theorem create_keyformat_keylocation_rules_witness:
  "zfs_crypto_create (with_datasets (working_env no_files sum_mac (\<lambda>n b k. 0)) [plain_dataset ''tank''])
      \<lparr>stdin = terminal [], err_aux = []\<rparr> (Some ''tank'')
      (Some [(ZFS_PROP_ENCRYPTION, U64 ZIO_CRYPT_ON), (ZFS_PROP_KEYLOCATION, Str ''prompt'')]) None
    = (EINVAL, Some [(ZFS_PROP_ENCRYPTION, U64 ZIO_CRYPT_ON), (ZFS_PROP_KEYLOCATION, Str ''prompt'')],
       None, 0, \<lparr>stdin = terminal [], err_aux = []\<rparr>\<lparr>err_aux := ''Keyformat required for new encryption root.''\<rparr>)
   \<and> nvlist_lookup_string
        (fst (snd (zfs_crypto_create (working_env no_files sum_mac (\<lambda>n b k. 0))
           \<lparr>stdin = terminal [], err_aux = []\<rparr> None
           (Some [(ZFS_PROP_ENCRYPTION, U64 ZIO_CRYPT_ON), (ZFS_PROP_KEYFORMAT, U64 ZFS_KEYFORMAT_HEX)])
           (Some [(''feature@encryption'', Str ''enabled'')]))))
        ZFS_PROP_KEYLOCATION = Inr ''prompt''
   \<and> zfs_crypto_create (with_datasets (working_env no_files sum_mac (\<lambda>n b k. 0)) [plain_dataset ''tank''])
      \<lparr>stdin = terminal [], err_aux = []\<rparr> (Some ''tank'')
      (Some [(ZFS_PROP_ENCRYPTION, U64 ZIO_CRYPT_ON)]) None
    = (EINVAL, Some [(ZFS_PROP_ENCRYPTION, U64 ZIO_CRYPT_ON)],
       None, 0, \<lparr>stdin = terminal [], err_aux = []\<rparr>\<lparr>err_aux := ''Keyformat required for new encryption root.''\<rparr>)"
proof -
  let ?E = "with_datasets (working_env no_files sum_mac (\<lambda>n b k. 0)) [plain_dataset ''tank'']"
  let ?F = "working_env no_files sum_mac (\<lambda>n b k. 0)"
  have names: "ZFS_PROP_ENCRYPTION \<noteq> ZFS_PROP_KEYLOCATION" "ZFS_PROP_ENCRYPTION \<noteq> ZFS_PROP_KEYFORMAT"
    "ZFS_PROP_KEYLOCATION \<noteq> ZFS_PROP_ENCRYPTION" "ZFS_PROP_KEYFORMAT \<noteq> ZFS_PROP_ENCRYPTION"
    "ZFS_PROP_KEYFORMAT \<noteq> ZFS_PROP_KEYLOCATION" "ZFS_PROP_KEYLOCATION \<noteq> ZFS_PROP_KEYFORMAT"
    by (simp_all add: ZFS_PROP_ENCRYPTION_def ZFS_PROP_KEYLOCATION_def ZFS_PROP_KEYFORMAT_def)
  have r1: "(\<exists>pn pzhp. Some ''tank'' = Some pn \<and> make_dataset_handle ?E pn = Some pzhp
              \<and> encryption_feature_is_enabled (zpool_hdl pzhp) \<and> ZIO_CRYPT_OFF = prop_encryption pzhp)
           \<or> (Some ''tank'' = None \<and> nvlist_exists None ''feature@encryption''
              \<and> ZIO_CRYPT_OFF = ZIO_CRYPT_OFF)"
    by (simp add: with_datasets_def plain_dataset_def example_pool_enabled)
  have r2: "(\<exists>pn pzhp. None = Some pn \<and> make_dataset_handle ?F pn = Some pzhp
              \<and> encryption_feature_is_enabled (zpool_hdl pzhp) \<and> ZIO_CRYPT_OFF = prop_encryption pzhp)
           \<or> (None = (None :: string option)
               \<and> nvlist_exists (Some [(''feature@encryption'', Str ''enabled'')]) ''feature@encryption''
              \<and> ZIO_CRYPT_OFF = ZIO_CRYPT_OFF)"
    by (simp add: nvlist_exists_def)
  have e: "\<And>rest. (case nvlist_lookup_uint64 (Some ((ZFS_PROP_ENCRYPTION, U64 ZIO_CRYPT_ON) # rest))
                 ZFS_PROP_ENCRYPTION of Inr v \<Rightarrow> v | Inl e \<Rightarrow> ZIO_CRYPT_OFF) \<noteq> ZIO_CRYPT_OFF"
    by (simp add: nvlist_lookup_uint64_def ZIO_CRYPT_ON_def ZIO_CRYPT_OFF_def)
  note defs = lookup_keylocation_def lookup_keyformat_def nvlist_lookup_string_def
        nvlist_lookup_uint64_def names ZFS_KEYFORMAT_HEX_def ZFS_KEYFORMAT_NONE_def
  have c1: "zfs_crypto_create ?E \<lparr>stdin = terminal [], err_aux = []\<rparr> (Some ''tank'')
      (Some [(ZFS_PROP_ENCRYPTION, U64 ZIO_CRYPT_ON), (ZFS_PROP_KEYLOCATION, Str ''prompt'')]) None
    = (EINVAL, Some [(ZFS_PROP_ENCRYPTION, U64 ZIO_CRYPT_ON), (ZFS_PROP_KEYLOCATION, Str ''prompt'')],
       None, 0, \<lparr>stdin = terminal [], err_aux = []\<rparr>\<lparr>err_aux := ''Keyformat required for new encryption root.''\<rparr>)"
    by (rule create_keyformat_keylocation_rules [OF r1 e, THEN conjunct1, rule_format])
       (simp add: defs)
  have c2: "nvlist_lookup_string
        (fst (snd (zfs_crypto_create ?F \<lparr>stdin = terminal [], err_aux = []\<rparr> None
           (Some [(ZFS_PROP_ENCRYPTION, U64 ZIO_CRYPT_ON), (ZFS_PROP_KEYFORMAT, U64 ZFS_KEYFORMAT_HEX)])
           (Some [(''feature@encryption'', Str ''enabled'')]))))
        ZFS_PROP_KEYLOCATION = Inr ''prompt''"
    by (rule create_keyformat_keylocation_rules
          [OF r2 e, THEN conjunct2, THEN conjunct1, rule_format, THEN conjunct1])
       (simp add: defs)
  have c3: "zfs_crypto_create ?E \<lparr>stdin = terminal [], err_aux = []\<rparr> (Some ''tank'')
      (Some [(ZFS_PROP_ENCRYPTION, U64 ZIO_CRYPT_ON)]) None
    = (EINVAL, Some [(ZFS_PROP_ENCRYPTION, U64 ZIO_CRYPT_ON)],
       None, 0, \<lparr>stdin = terminal [], err_aux = []\<rparr>\<lparr>err_aux := ''Keyformat required for new encryption root.''\<rparr>)"
    by (rule create_keyformat_keylocation_rules [OF r1 e, THEN conjunct2, THEN conjunct2, rule_format])
       (simp add: defs)
  show ?thesis using c1 c2 c3 by blast
qed

subsection \<open>Cloning from an origin whose key is not loaded\<close>

text \<open>
  Claim C7, as amended. In \<^verbatim>\<open>zfs_crypto_clone\<close>, with a parent that can be looked up, an
  encrypted origin and an origin key status that is not available, the clone is always
  rejected and no wrapping key is produced. The code is \<^verbatim>\<open>EACCES\<close> unless the property
  list names the encryption property, or names a keylocation with no keyformat: those
  two are checked before the origin's key status and give \<^verbatim>\<open>EINVAL\<close>.
\<close>

theorem clone_origin_key_unavailable:
  assumes "make_dataset_handle E parent_name = Some pzhp"
    and "prop_encryption origin_zhp \<noteq> ZIO_CRYPT_OFF"
    and "prop_keystatus origin_zhp \<noteq> ZFS_KEYSTATUS_AVAILABLE"
  shows "fst (zfs_crypto_clone E w origin_zhp parent_name props)
           = (if (case nvlist_lookup_uint64 props ZFS_PROP_ENCRYPTION of
                    Inr v \<Rightarrow> True | Inl e \<Rightarrow> False) then EINVAL
              else if lookup_keylocation props \<noteq> None
                      \<and> lookup_keyformat props = ZFS_KEYFORMAT_NONE then EINVAL
              else EACCES)
       \<and> fst (zfs_crypto_clone E w origin_zhp parent_name props) \<noteq> 0
       \<and> fst (snd (snd (zfs_crypto_clone E w origin_zhp parent_name props))) = None"
proof (cases props)
  case None
  then show ?thesis
    using assms
    by (simp add: zfs_crypto_clone_def Let_def lookup_keyformat_def lookup_keylocation_def
        nvlist_lookup_uint64_def nvlist_lookup_string_def EACCES_def)
next
  case (Some l)
  then show ?thesis
    using assms
    by (simp add: zfs_crypto_clone_def Let_def nvlist_add_def EINVAL_def EACCES_def
        split: sum.splits)
qed

theorem clone_origin_key_unavailable_witness:
  "fst (zfs_crypto_clone
          (with_datasets (working_env no_files sum_mac (\<lambda>n b k. 0)) [plain_dataset ''tank''])
          \<lparr>stdin = terminal [], err_aux = []\<rparr>
          (encryption_root ''tank/origin@snap'' ZFS_KEYFORMAT_HEX ''prompt'' ZFS_KEYSTATUS_UNAVAILABLE)
          ''tank'' (Some [(ZFS_PROP_KEYFORMAT, U64 ZFS_KEYFORMAT_HEX)])) = EACCES"
proof -
  let ?E = "with_datasets (working_env no_files sum_mac (\<lambda>n b k. 0)) [plain_dataset ''tank'']"
  let ?O = "encryption_root ''tank/origin@snap'' ZFS_KEYFORMAT_HEX ''prompt'' ZFS_KEYSTATUS_UNAVAILABLE"
  have h1: "make_dataset_handle ?E ''tank'' = Some (plain_dataset ''tank'')"
    by (simp add: with_datasets_def plain_dataset_def)
  have h2: "prop_encryption ?O \<noteq> ZIO_CRYPT_OFF"
    by (simp add: encryption_root_def ZIO_CRYPT_ON_def ZIO_CRYPT_OFF_def)
  have h3: "prop_keystatus ?O \<noteq> ZFS_KEYSTATUS_AVAILABLE"
    by (simp add: encryption_root_def ZFS_KEYSTATUS_UNAVAILABLE_def ZFS_KEYSTATUS_AVAILABLE_def)
  have l1: "nvlist_lookup_uint64 (Some [(ZFS_PROP_KEYFORMAT, U64 ZFS_KEYFORMAT_HEX)])
              ZFS_PROP_ENCRYPTION = Inl ENOENT"
    by (simp add: nvlist_lookup_uint64_def ZFS_PROP_ENCRYPTION_def ZFS_PROP_KEYFORMAT_def)
  have l2: "lookup_keylocation (Some [(ZFS_PROP_KEYFORMAT, U64 ZFS_KEYFORMAT_HEX)]) = None"
    by (simp add: lookup_keylocation_def nvlist_lookup_string_def ZFS_PROP_KEYLOCATION_def
        ZFS_PROP_KEYFORMAT_def)
  show ?thesis
    using clone_origin_key_unavailable [OF h1 h2 h3, THEN conjunct1,
        of "\<lparr>stdin = terminal [], err_aux = []\<rparr>" "Some [(ZFS_PROP_KEYFORMAT, U64 ZFS_KEYFORMAT_HEX)]"]
    by (simp add: l1 l2)
qed

text \<open>
  The claim as it was stated fails: with an encrypted origin whose key status is
  unavailable, a property list that names the encryption property is rejected with
  \<^verbatim>\<open>EINVAL\<close>, not \<^verbatim>\<open>EACCES\<close>.
\<close>

theorem clone_origin_key_unavailable_counterexample:
  "prop_encryption (encryption_root ''tank/origin@snap'' ZFS_KEYFORMAT_HEX ''prompt''
       ZFS_KEYSTATUS_UNAVAILABLE) \<noteq> ZIO_CRYPT_OFF
   \<and> prop_keystatus (encryption_root ''tank/origin@snap'' ZFS_KEYFORMAT_HEX ''prompt''
       ZFS_KEYSTATUS_UNAVAILABLE) = ZFS_KEYSTATUS_UNAVAILABLE
   \<and> zfs_crypto_clone
        (with_datasets (working_env no_files sum_mac (\<lambda>n b k. 0)) [plain_dataset ''tank''])
        \<lparr>stdin = terminal [], err_aux = []\<rparr>
        (encryption_root ''tank/origin@snap'' ZFS_KEYFORMAT_HEX ''prompt'' ZFS_KEYSTATUS_UNAVAILABLE)
        ''tank'' (Some [(ZFS_PROP_ENCRYPTION, U64 ZIO_CRYPT_ON)])
      = (EINVAL, Some [(ZFS_PROP_ENCRYPTION, U64 ZIO_CRYPT_ON)], None, 0,
         \<lparr>stdin = terminal [], err_aux = ''Encryption may not be specified during cloning.''\<rparr>)
   \<and> EINVAL \<noteq> EACCES"
  by (simp add: zfs_crypto_clone_def with_datasets_def plain_dataset_def encryption_root_def
      nvlist_lookup_uint64_def Let_def EINVAL_def EACCES_def ZIO_CRYPT_ON_def ZIO_CRYPT_OFF_def)

subsection \<open>Changing a key: the requirements of the two modes\<close>









subsection \<open>The walk that loads the keys of a tree\<close>









lemma attempt_load_keys_example:
  "zfs_crypto_attempt_load_keys
       (with_tree (working_env no_files sum_mac (\<lambda>n b k. 0)) ''tank'' example_tree)
       \<lparr>stdin = terminal [], err_aux = []\<rparr> ''tank''
     = (- 1, Some (0, 2), \<lparr>stdin = terminal [], err_aux = ''Failed to open key material file''\<rparr>)"
  by code_simp

subsection \<open>Loading a key: the retries\<close>

text \<open>
  Claim C2, where the code departs from it. The key is typed at a terminal and the
  storage layer answers \<^verbatim>\<open>EACCES\<close> to every key. \<^verbatim>\<open>zfs_crypto_load_key\<close> reads five
  entries before it returns \<^verbatim>\<open>EACCES\<close>: of six lines typed ahead, one is left. The test
  \<^verbatim>\<open>attempts <= MAX_KEY_PROMPT_ATTEMPTS\<close> with \<^verbatim>\<open>attempts\<close> counted from 0 allows four
  retries after the first entry, where the name of the constant (3) announces three
  entries in all.
\<close>

theorem load_key_wrong_passphrases:
  "zfs_crypto_load_key (working_env no_files sum_mac (\<lambda>name noop key. EACCES))
     \<lparr>stdin = terminal six_wrong_entries, err_aux = []\<rparr>
     (encryption_root ''tank/home'' ZFS_KEYFORMAT_PASSPHRASE ''prompt'' ZFS_KEYSTATUS_UNAVAILABLE)
     False None
   = (EACCES, \<lparr>stdin = terminal (ascii ''wrongpw6'' @ [nl]),
               err_aux = ''Incorrect key provided for '' @ [CHR 0x27] @ ''tank/home'' @ [CHR 0x27] @ ''.''\<rparr>)"
  by code_simp


lemma get_key_material_fd_can_retry:
  "fst (snd (snd (snd (get_key_material_fd w v kf fd is_stdin cr)))) = cr"
  by (simp add: get_key_material_fd_def Let_def split: prod.splits option.splits)

lemma get_key_material_can_retry:
  "fst (snd (snd (snd (get_key_material E w v kf kl))))
     = (zfs_prop_parse_keylocation kl = ZFS_KEYLOCATION_PROMPT \<and> tty (stdin w))"
  by (cases "zfs_prop_parse_keylocation kl")
     (auto simp: get_key_material_def get_key_material_fd_can_retry split: sum.splits)

lemma load_key_pass_acquire_error:
  assumes "get_key_material E w False (ucast keyformat) keylocation = (ret, km, kmlen, can_retry, w1)"
    and "ret \<noteq> 0"
  shows "zfs_crypto_load_key_pass E w zhp noop keyformat keylocation iters salt key_data
           = (ret, can_retry, True, key_data, w1)"
  using assms by (simp add: zfs_crypto_load_key_pass_def)

lemma load_key_pass_derive_error:
  assumes "get_key_material E w False (ucast keyformat) keylocation = (0, km, kmlen, can_retry, w1)"
    and "derive_key E w1 (ucast keyformat) iters km kmlen salt = (ret, key, w2)"
    and "ret \<noteq> 0"
  shows "zfs_crypto_load_key_pass E w zhp noop keyformat keylocation iters salt key_data
           = (ret, can_retry, True, Null, w2)"
  using assms by (simp add: zfs_crypto_load_key_pass_def)

lemma load_key_pass_storage_error:
  assumes "get_key_material E w False (ucast keyformat) keylocation = (0, km, kmlen, can_retry, w1)"
    and "derive_key E w1 (ucast keyformat) iters km kmlen salt = (0, Some key, w2)"
    and "lzc_load_key E (zfs_name zhp) noop key = e" and "e \<noteq> 0"
  shows "zfs_crypto_load_key_pass E w zhp noop keyformat keylocation iters salt key_data
           = (e, can_retry, e = EACCES, Allocated,
              w2\<lparr>err_aux := load_key_aux e (zfs_name zhp) (err_aux w2)\<rparr>)"
  using assms by (simp add: zfs_crypto_load_key_pass_def Let_def)

lemma get_key_material_terminal_invalid:
  assumes "keylocation = ''prompt''" and "tty (stdin w)" and "\<not> tc_fail (stdin w)"
    and "keyformat \<noteq> ZFS_KEYFORMAT_RAW"
    and "getline (data (stdin w)) = Some (line, rest)"
    and "validate_key_material keyformat (trim_newline line) (length (trim_newline line))
           = Some (e, msg)"
  shows "get_key_material E w v keyformat keylocation
           = (e, [], 0, True, w\<lparr>stdin := (stdin w)\<lparr>data := rest\<rparr>, err_aux := msg\<rparr>)"
  using assms
  by (simp add: get_key_material_def zfs_prop_parse_keylocation_def get_key_material_fd_def
      get_key_material_raw_def)

lemma validate_key_material_code:
  "validate_key_material keyformat km kmlen = Some (e, msg) \<Longrightarrow> e = EINVAL"
  by (auto simp: validate_key_material_def split: if_splits)

lemma load_key_try_acquire_error:
  assumes g: "get_key_material E w False (ucast keyformat) keylocation
                = (ret, km, kmlen, can_retry, w1)"
    and r: "ret \<noteq> 0"
  shows "zfs_crypto_load_key_try E w zhp noop keyformat keylocation iters salt attempts key_data
         = (if key_data = Freed then Inl (Double_free ret w1)
            else if zfs_prop_parse_keylocation keylocation = ZFS_KEYLOCATION_PROMPT
                    \<and> tty (stdin w) \<and> attempts \<le> MAX_KEY_PROMPT_ATTEMPTS
              then zfs_crypto_load_key_try E w1 zhp noop keyformat keylocation iters salt
                     (attempts + 1) (if key_data = Null then Null else Freed)
            else Inr (ret, w1))"
proof -
  have cr: "can_retry = (zfs_prop_parse_keylocation keylocation = ZFS_KEYLOCATION_PROMPT
                          \<and> tty (stdin w))"
    using get_key_material_can_retry [of E w False "ucast keyformat" keylocation] g by simp
  show ?thesis
    using r cr
    by (subst zfs_crypto_load_key_try.simps)
       (simp add: load_key_pass_acquire_error [OF g r])
qed

lemma load_key_try_derive_error:
  assumes g: "get_key_material E w False (ucast keyformat) keylocation
                = (0, km, kmlen, can_retry, w1)"
    and d: "derive_key E w1 (ucast keyformat) iters km kmlen salt = (ret, key, w2)"
    and r: "ret \<noteq> 0"
  shows "zfs_crypto_load_key_try E w zhp noop keyformat keylocation iters salt attempts key_data
         = (if zfs_prop_parse_keylocation keylocation = ZFS_KEYLOCATION_PROMPT
               \<and> tty (stdin w) \<and> attempts \<le> MAX_KEY_PROMPT_ATTEMPTS
            then zfs_crypto_load_key_try E w2 zhp noop keyformat keylocation iters salt
                   (attempts + 1) Null
            else Inr (ret, w2))"
proof -
  have cr: "can_retry = (zfs_prop_parse_keylocation keylocation = ZFS_KEYLOCATION_PROMPT
                          \<and> tty (stdin w))"
    using get_key_material_can_retry [of E w False "ucast keyformat" keylocation] g by simp
  show ?thesis
    using r cr
    by (subst zfs_crypto_load_key_try.simps)
       (simp add: load_key_pass_derive_error [OF g d r])
qed

lemma load_key_try_storage_error:
  assumes g: "get_key_material E w False (ucast keyformat) keylocation
                = (0, km, kmlen, can_retry, w1)"
    and d: "derive_key E w1 (ucast keyformat) iters km kmlen salt = (0, Some key, w2)"
    and l: "lzc_load_key E (zfs_name zhp) noop key = code" and c: "code \<noteq> 0"
  shows "zfs_crypto_load_key_try E w zhp noop keyformat keylocation iters salt attempts key_data
         = (if code = EACCES \<and> zfs_prop_parse_keylocation keylocation = ZFS_KEYLOCATION_PROMPT
               \<and> tty (stdin w) \<and> attempts \<le> MAX_KEY_PROMPT_ATTEMPTS
            then zfs_crypto_load_key_try E
                   (w2\<lparr>err_aux := load_key_aux code (zfs_name zhp) (err_aux w2)\<rparr>)
                   zhp noop keyformat keylocation iters salt (attempts + 1) Freed
            else Inr (code, w2\<lparr>err_aux := load_key_aux code (zfs_name zhp) (err_aux w2)\<rparr>))"
proof -
  have cr: "can_retry = (zfs_prop_parse_keylocation keylocation = ZFS_KEYLOCATION_PROMPT
                          \<and> tty (stdin w))"
    using get_key_material_can_retry [of E w False "ucast keyformat" keylocation] g by simp
  show ?thesis
    using c cr
    by (subst zfs_crypto_load_key_try.simps)
       (auto simp: load_key_pass_storage_error [OF g d l c])
qed

text \<open>
  Claim C3, as amended. In \<^verbatim>\<open>zfs_crypto_load_key\<close> the flag \<^verbatim>\<open>correctible\<close> is set
  before the key material is fetched, so that an error of fetching, validating or
  deriving it is retried exactly as a wrong key is, when the key material comes from a
  terminal and the budget of retries is not used up. For every pass of the loop, with
  \<^verbatim>\<open>attempts\<close> retries made and the pointer \<^verbatim>\<open>key_data\<close> as the passes before have
  left it:
  \<^item> whatever the error of \<^verbatim>\<open>get_key_material\<close> (the stream cannot be opened or read,
    the key material fails the validation of its format), the key is asked for again
    when the key location is the prompt, standard input is a terminal and the budget
    lasts, and the error is returned at once otherwise;
  \<^item> but when the pass before was refused by the storage layer, \<^verbatim>\<open>key_data\<close> still
    points to the wrapping key freed then, and the error of \<^verbatim>\<open>get_key_material\<close> makes
    the code free it a second time, before the test of the retry;
  \<^item> whatever the error of \<^verbatim>\<open>derive_key\<close>, the key is asked for again under the same
    conditions, and the error is returned at once otherwise;
  \<^item> an error of the storage layer other than \<^verbatim>\<open>EACCES\<close> is returned at once, also for a
    key entered at a terminal; \<^verbatim>\<open>EACCES\<close> is retried for a key entered at a terminal
    while the budget lasts, and returned at once otherwise;
  \<^item> in particular an entry at the terminal that fails the validation of its format is
    consumed, its code is \<^verbatim>\<open>EINVAL\<close>, and the key is asked for again.
\<close>

theorem load_key_retry_policy:
  "(get_key_material E w False (ucast keyformat) keylocation = (ret, km, kmlen, can_retry, w1)
      \<and> ret \<noteq> 0 \<longrightarrow>
      zfs_crypto_load_key_try E w zhp noop keyformat keylocation iters salt attempts key_data
        = (if key_data = Freed then Inl (Double_free ret w1)
           else if zfs_prop_parse_keylocation keylocation = ZFS_KEYLOCATION_PROMPT
                   \<and> tty (stdin w) \<and> attempts \<le> MAX_KEY_PROMPT_ATTEMPTS
             then zfs_crypto_load_key_try E w1 zhp noop keyformat keylocation iters salt
                    (attempts + 1) (if key_data = Null then Null else Freed)
           else Inr (ret, w1)))
   \<and> (get_key_material E w False (ucast keyformat) keylocation = (0, km, kmlen, can_retry, w1)
      \<and> derive_key E w1 (ucast keyformat) iters km kmlen salt = (code, no_key, w2)
      \<and> code \<noteq> 0 \<longrightarrow>
      zfs_crypto_load_key_try E w zhp noop keyformat keylocation iters salt attempts key_data
        = (if zfs_prop_parse_keylocation keylocation = ZFS_KEYLOCATION_PROMPT
              \<and> tty (stdin w) \<and> attempts \<le> MAX_KEY_PROMPT_ATTEMPTS
           then zfs_crypto_load_key_try E w2 zhp noop keyformat keylocation iters salt
                  (attempts + 1) Null
           else Inr (code, w2)))
   \<and> (get_key_material E w False (ucast keyformat) keylocation = (0, km, kmlen, can_retry, w1)
      \<and> derive_key E w1 (ucast keyformat) iters km kmlen salt = (0, Some key, w2)
      \<and> lzc_load_key E (zfs_name zhp) noop key = code \<and> code \<noteq> 0 \<longrightarrow>
      zfs_crypto_load_key_try E w zhp noop keyformat keylocation iters salt attempts key_data
        = (if code = EACCES \<and> zfs_prop_parse_keylocation keylocation = ZFS_KEYLOCATION_PROMPT
              \<and> tty (stdin w) \<and> attempts \<le> MAX_KEY_PROMPT_ATTEMPTS
           then zfs_crypto_load_key_try E
                  (w2\<lparr>err_aux := load_key_aux code (zfs_name zhp) (err_aux w2)\<rparr>)
                  zhp noop keyformat keylocation iters salt (attempts + 1) Freed
           else Inr (code, w2\<lparr>err_aux := load_key_aux code (zfs_name zhp) (err_aux w2)\<rparr>)))
   \<and> (keylocation = ''prompt'' \<and> tty (stdin w) \<and> \<not> tc_fail (stdin w)
      \<and> ucast keyformat \<noteq> (ZFS_KEYFORMAT_RAW :: zfs_keyformat_t)
      \<and> getline (data (stdin w)) = Some (line, rest)
      \<and> validate_key_material (ucast keyformat) (trim_newline line) (length (trim_newline line))
            = Some (e, msg)
      \<and> attempts \<le> MAX_KEY_PROMPT_ATTEMPTS \<and> key_data \<noteq> Freed \<longrightarrow>
      e = EINVAL
      \<and> zfs_crypto_load_key_try E w zhp noop keyformat keylocation iters salt attempts key_data
        = zfs_crypto_load_key_try E (w\<lparr>stdin := (stdin w)\<lparr>data := rest\<rparr>, err_aux := msg\<rparr>)
            zhp noop keyformat keylocation iters salt (attempts + 1)
            (if key_data = Null then Null else Freed))"
proof (intro conjI impI)
  assume h: "get_key_material E w False (ucast keyformat) keylocation
               = (ret, km, kmlen, can_retry, w1) \<and> ret \<noteq> 0"
  then have g: "get_key_material E w False (ucast keyformat) keylocation
               = (ret, km, kmlen, can_retry, w1)" and r: "ret \<noteq> 0" by simp_all
  show "zfs_crypto_load_key_try E w zhp noop keyformat keylocation iters salt attempts key_data
        = (if key_data = Freed then Inl (Double_free ret w1)
           else if zfs_prop_parse_keylocation keylocation = ZFS_KEYLOCATION_PROMPT
                   \<and> tty (stdin w) \<and> attempts \<le> MAX_KEY_PROMPT_ATTEMPTS
             then zfs_crypto_load_key_try E w1 zhp noop keyformat keylocation iters salt
                    (attempts + 1) (if key_data = Null then Null else Freed)
           else Inr (ret, w1))"
    by (rule load_key_try_acquire_error [OF g r])
next
  assume h: "get_key_material E w False (ucast keyformat) keylocation = (0, km, kmlen, can_retry, w1)
      \<and> derive_key E w1 (ucast keyformat) iters km kmlen salt = (code, no_key, w2)
      \<and> code \<noteq> 0"
  then have g: "get_key_material E w False (ucast keyformat) keylocation
                  = (0, km, kmlen, can_retry, w1)"
    and d: "derive_key E w1 (ucast keyformat) iters km kmlen salt = (code, no_key, w2)"
    and c: "code \<noteq> 0" by simp_all
  show "zfs_crypto_load_key_try E w zhp noop keyformat keylocation iters salt attempts key_data
        = (if zfs_prop_parse_keylocation keylocation = ZFS_KEYLOCATION_PROMPT
              \<and> tty (stdin w) \<and> attempts \<le> MAX_KEY_PROMPT_ATTEMPTS
           then zfs_crypto_load_key_try E w2 zhp noop keyformat keylocation iters salt
                  (attempts + 1) Null
           else Inr (code, w2))"
    by (rule load_key_try_derive_error [OF g d c])
next
  assume h: "get_key_material E w False (ucast keyformat) keylocation = (0, km, kmlen, can_retry, w1)
      \<and> derive_key E w1 (ucast keyformat) iters km kmlen salt = (0, Some key, w2)
      \<and> lzc_load_key E (zfs_name zhp) noop key = code \<and> code \<noteq> 0"
  then have g: "get_key_material E w False (ucast keyformat) keylocation
                  = (0, km, kmlen, can_retry, w1)"
    and d: "derive_key E w1 (ucast keyformat) iters km kmlen salt = (0, Some key, w2)"
    and l: "lzc_load_key E (zfs_name zhp) noop key = code" and c: "code \<noteq> 0" by simp_all
  show "zfs_crypto_load_key_try E w zhp noop keyformat keylocation iters salt attempts key_data
        = (if code = EACCES \<and> zfs_prop_parse_keylocation keylocation = ZFS_KEYLOCATION_PROMPT
              \<and> tty (stdin w) \<and> attempts \<le> MAX_KEY_PROMPT_ATTEMPTS
           then zfs_crypto_load_key_try E
                  (w2\<lparr>err_aux := load_key_aux code (zfs_name zhp) (err_aux w2)\<rparr>)
                  zhp noop keyformat keylocation iters salt (attempts + 1) Freed
           else Inr (code, w2\<lparr>err_aux := load_key_aux code (zfs_name zhp) (err_aux w2)\<rparr>))"
    by (rule load_key_try_storage_error [OF g d l c])
next
  assume h: "keylocation = ''prompt'' \<and> tty (stdin w) \<and> \<not> tc_fail (stdin w)
      \<and> ucast keyformat \<noteq> (ZFS_KEYFORMAT_RAW :: zfs_keyformat_t)
      \<and> getline (data (stdin w)) = Some (line, rest)
      \<and> validate_key_material (ucast keyformat) (trim_newline line) (length (trim_newline line))
            = Some (e, msg)
      \<and> attempts \<le> MAX_KEY_PROMPT_ATTEMPTS \<and> key_data \<noteq> Freed"
  then show e: "e = EINVAL" using validate_key_material_code by blast
  have g: "get_key_material E w False (ucast keyformat) keylocation
           = (e, [], 0, True, w\<lparr>stdin := (stdin w)\<lparr>data := rest\<rparr>, err_aux := msg\<rparr>)"
    using h by (intro get_key_material_terminal_invalid; blast)
  have ne: "e \<noteq> 0" using e by (simp add: EINVAL_def)
  have c: "keylocation = ''prompt''" "tty (stdin w)" "attempts \<le> MAX_KEY_PROMPT_ATTEMPTS"
    "key_data \<noteq> Freed"
    using h by blast+
  show "zfs_crypto_load_key_try E w zhp noop keyformat keylocation iters salt attempts key_data
        = zfs_crypto_load_key_try E (w\<lparr>stdin := (stdin w)\<lparr>data := rest\<rparr>, err_aux := msg\<rparr>)
            zhp noop keyformat keylocation iters salt (attempts + 1)
            (if key_data = Null then Null else Freed)"
    unfolding load_key_try_acquire_error [OF g ne]
    using c by (simp add: zfs_prop_parse_keylocation_def)
qed

theorem load_key_retry_policy_witness:
  "zfs_crypto_load_key_try (working_env no_files sum_mac (\<lambda>name noop key. 0))
      \<lparr>stdin = terminal short_then_long, err_aux = []\<rparr>
      (encryption_root ''tank/home'' ZFS_KEYFORMAT_PASSPHRASE ''prompt'' ZFS_KEYSTATUS_UNAVAILABLE)
      False ZFS_KEYFORMAT_PASSPHRASE ''prompt'' 1 0x1122334455667788 0 Null
   = zfs_crypto_load_key_try (working_env no_files sum_mac (\<lambda>name noop key. 0))
      \<lparr>stdin = terminal (ascii ''longenough'' @ [nl]), err_aux = ''Passphrase too short (min 8).''\<rparr>
      (encryption_root ''tank/home'' ZFS_KEYFORMAT_PASSPHRASE ''prompt'' ZFS_KEYSTATUS_UNAVAILABLE)
      False ZFS_KEYFORMAT_PASSPHRASE ''prompt'' 1 0x1122334455667788 1 Null
   \<and> zfs_crypto_load_key_try (working_env no_files sum_mac (\<lambda>name noop key. 0))
      \<lparr>stdin = terminal short_then_long, err_aux = []\<rparr>
      (encryption_root ''tank/home'' ZFS_KEYFORMAT_PASSPHRASE ''prompt'' ZFS_KEYSTATUS_UNAVAILABLE)
      False ZFS_KEYFORMAT_PASSPHRASE ''prompt'' 1 0x1122334455667788 1 Freed
   = Inl (Double_free EINVAL
        \<lparr>stdin = terminal (ascii ''longenough'' @ [nl]), err_aux = ''Passphrase too short (min 8).''\<rparr>)
   \<and> zfs_crypto_load_key_try (failing_provider (working_env no_files sum_mac (\<lambda>name noop key. 0)))
      \<lparr>stdin = terminal (ascii ''longenough'' @ [nl]), err_aux = []\<rparr>
      (encryption_root ''tank/home'' ZFS_KEYFORMAT_PASSPHRASE ''prompt'' ZFS_KEYSTATUS_UNAVAILABLE)
      False ZFS_KEYFORMAT_PASSPHRASE ''prompt'' 1 0x1122334455667788 0 Freed
   = zfs_crypto_load_key_try (failing_provider (working_env no_files sum_mac (\<lambda>name noop key. 0)))
      \<lparr>stdin = terminal [], err_aux = ''Failed to generate key from passphrase.''\<rparr>
      (encryption_root ''tank/home'' ZFS_KEYFORMAT_PASSPHRASE ''prompt'' ZFS_KEYSTATUS_UNAVAILABLE)
      False ZFS_KEYFORMAT_PASSPHRASE ''prompt'' 1 0x1122334455667788 1 Null
   \<and> zfs_crypto_load_key_try (working_env no_files sum_mac (\<lambda>name noop key. EACCES))
      \<lparr>stdin = terminal (hex_line @ [nl]), err_aux = []\<rparr>
      (encryption_root ''tank/home'' ZFS_KEYFORMAT_HEX ''prompt'' ZFS_KEYSTATUS_UNAVAILABLE)
      False ZFS_KEYFORMAT_HEX ''prompt'' 0 0 0 Null
   = zfs_crypto_load_key_try (working_env no_files sum_mac (\<lambda>name noop key. EACCES))
      \<lparr>stdin = terminal [],
        err_aux = ''Incorrect key provided for '' @ [CHR 0x27] @ ''tank/home'' @ [CHR 0x27] @ ''.''\<rparr>
      (encryption_root ''tank/home'' ZFS_KEYFORMAT_HEX ''prompt'' ZFS_KEYSTATUS_UNAVAILABLE)
      False ZFS_KEYFORMAT_HEX ''prompt'' 0 0 1 Freed
   \<and> zfs_crypto_load_key_try (working_env no_files sum_mac (\<lambda>name noop key. EBUSY))
      \<lparr>stdin = terminal (hex_line @ [nl]), err_aux = []\<rparr>
      (encryption_root ''tank/home'' ZFS_KEYFORMAT_HEX ''prompt'' ZFS_KEYSTATUS_UNAVAILABLE)
      False ZFS_KEYFORMAT_HEX ''prompt'' 0 0 0 Null
   = Inr (EBUSY, \<lparr>stdin = terminal [],
                  err_aux = [CHR 0x27] @ ''tank/home'' @ [CHR 0x27] @ '' is busy.''\<rparr>)
   \<and> zfs_crypto_load_key_try (working_env no_files sum_mac (\<lambda>name noop key. 0))
      \<lparr>stdin = terminal short_then_long, err_aux = []\<rparr>
      (encryption_root ''tank/home'' ZFS_KEYFORMAT_PASSPHRASE ''prompt'' ZFS_KEYSTATUS_UNAVAILABLE)
      False ZFS_KEYFORMAT_PASSPHRASE ''prompt'' 1 0x1122334455667788 3 Null
   = zfs_crypto_load_key_try (working_env no_files sum_mac (\<lambda>name noop key. 0))
      \<lparr>stdin = terminal (ascii ''longenough'' @ [nl]), err_aux = ''Passphrase too short (min 8).''\<rparr>
      (encryption_root ''tank/home'' ZFS_KEYFORMAT_PASSPHRASE ''prompt'' ZFS_KEYSTATUS_UNAVAILABLE)
      False ZFS_KEYFORMAT_PASSPHRASE ''prompt'' 1 0x1122334455667788 4 Null"
proof -
  let ?E = "working_env no_files sum_mac (\<lambda>name noop key. 0)"
  let ?EA = "working_env no_files sum_mac (\<lambda>name noop key. EACCES)"
  let ?EB = "working_env no_files sum_mac (\<lambda>name noop key. EBUSY)"
  let ?F = "failing_provider ?E"
  let ?P = "encryption_root ''tank/home'' ZFS_KEYFORMAT_PASSPHRASE ''prompt'' ZFS_KEYSTATUS_UNAVAILABLE"
  let ?H = "encryption_root ''tank/home'' ZFS_KEYFORMAT_HEX ''prompt'' ZFS_KEYSTATUS_UNAVAILABLE"
  let ?w = "\<lparr>stdin = terminal short_then_long, err_aux = []\<rparr>"
  let ?w1 = "\<lparr>stdin = terminal (ascii ''longenough'' @ [nl]),
              err_aux = ''Passphrase too short (min 8).''\<rparr>"
  let ?v = "\<lparr>stdin = terminal (ascii ''longenough'' @ [nl]), err_aux = []\<rparr>"
  let ?v1 = "\<lparr>stdin = terminal [], err_aux = []\<rparr>"
  let ?v2 = "\<lparr>stdin = terminal [], err_aux = ''Failed to generate key from passphrase.''\<rparr>"
  let ?h = "\<lparr>stdin = terminal (hex_line @ [nl]), err_aux = []\<rparr>"
  have pr: "zfs_prop_parse_keylocation ''prompt'' = ZFS_KEYLOCATION_PROMPT"
    by (simp add: zfs_prop_parse_keylocation_def)
  have tt: "\<And>d. tty (terminal d)"
    by (simp add: terminal_def)
  have mx: "(0 :: int) \<le> MAX_KEY_PROMPT_ATTEMPTS" "(3 :: int) \<le> MAX_KEY_PROMPT_ATTEMPTS"
    by (simp_all add: MAX_KEY_PROMPT_ATTEMPTS_def)
  have g1: "get_key_material ?E ?w False (ucast (ZFS_KEYFORMAT_PASSPHRASE :: uint64)) ''prompt''
              = (EINVAL, [], 0, True, ?w1) \<and> EINVAL \<noteq> 0"
    by code_simp
  have c1: "zfs_crypto_load_key_try ?E ?w ?P False ZFS_KEYFORMAT_PASSPHRASE ''prompt'' 1
              0x1122334455667788 0 Null
            = zfs_crypto_load_key_try ?E ?w1 ?P False ZFS_KEYFORMAT_PASSPHRASE ''prompt'' 1
              0x1122334455667788 1 Null"
    using load_key_retry_policy [THEN conjunct1, rule_format, OF g1,
        where zhp = ?P and noop = False and iters = 1 and salt = "0x1122334455667788"
          and attempts = 0 and key_data = Null]
    by (simp add: pr tt mx)
  have c2: "zfs_crypto_load_key_try ?E ?w ?P False ZFS_KEYFORMAT_PASSPHRASE ''prompt'' 1
              0x1122334455667788 1 Freed
            = Inl (Double_free EINVAL ?w1)"
    using load_key_retry_policy [THEN conjunct1, rule_format, OF g1,
        where zhp = ?P and noop = False and iters = 1 and salt = "0x1122334455667788"
          and attempts = 1 and key_data = Freed]
    by simp
  have g3: "get_key_material ?F ?v False (ucast (ZFS_KEYFORMAT_PASSPHRASE :: uint64)) ''prompt''
              = (0, ascii ''longenough'', 10, True, ?v1)
            \<and> derive_key ?F ?v1 (ucast (ZFS_KEYFORMAT_PASSPHRASE :: uint64)) 1
                 (ascii ''longenough'') 10 0x1122334455667788 = (EIO, None, ?v2)
            \<and> EIO \<noteq> 0"
    by code_simp
  have c3: "zfs_crypto_load_key_try ?F ?v ?P False ZFS_KEYFORMAT_PASSPHRASE ''prompt'' 1
              0x1122334455667788 0 Freed
            = zfs_crypto_load_key_try ?F ?v2 ?P False ZFS_KEYFORMAT_PASSPHRASE ''prompt'' 1
              0x1122334455667788 1 Null"
    using load_key_retry_policy [THEN conjunct2, THEN conjunct1, rule_format, OF g3,
        where zhp = ?P and noop = False and attempts = 0 and key_data = Freed]
    by (simp add: pr tt mx)
  have g4: "get_key_material ?EA ?h False (ucast (ZFS_KEYFORMAT_HEX :: uint64)) ''prompt''
              = (0, hex_line, 64, True, ?v1)
            \<and> derive_key ?EA ?v1 (ucast (ZFS_KEYFORMAT_HEX :: uint64)) 0 hex_line 64 0
                = (0, Some (replicate 32 0xA5), ?v1)
            \<and> lzc_load_key ?EA (zfs_name ?H) False (replicate 32 0xA5) = EACCES
            \<and> EACCES \<noteq> 0"
    by code_simp
  have a4: "load_key_aux EACCES (zfs_name ?H) []
            = ''Incorrect key provided for '' @ [CHR 0x27] @ ''tank/home'' @ [CHR 0x27] @ ''.''"
    by (simp add: load_key_aux_def encryption_root_def EACCES_def EINVAL_def EEXIST_def EBUSY_def)
  have c4: "zfs_crypto_load_key_try ?EA ?h ?H False ZFS_KEYFORMAT_HEX ''prompt'' 0 0 0 Null
            = zfs_crypto_load_key_try ?EA
                \<lparr>stdin = terminal [],
                  err_aux = ''Incorrect key provided for '' @ [CHR 0x27] @ ''tank/home''
                            @ [CHR 0x27] @ ''.''\<rparr>
                ?H False ZFS_KEYFORMAT_HEX ''prompt'' 0 0 1 Freed"
    using load_key_retry_policy [THEN conjunct2, THEN conjunct2, THEN conjunct1, rule_format,
        OF g4, where attempts = 0 and key_data = Null]
    by (simp add: pr tt mx a4)
  have g5: "get_key_material ?EB ?h False (ucast (ZFS_KEYFORMAT_HEX :: uint64)) ''prompt''
              = (0, hex_line, 64, True, ?v1)
            \<and> derive_key ?EB ?v1 (ucast (ZFS_KEYFORMAT_HEX :: uint64)) 0 hex_line 64 0
                = (0, Some (replicate 32 0xA5), ?v1)
            \<and> lzc_load_key ?EB (zfs_name ?H) False (replicate 32 0xA5) = EBUSY
            \<and> EBUSY \<noteq> 0"
    by code_simp
  have a5: "load_key_aux EBUSY (zfs_name ?H) []
            = [CHR 0x27] @ ''tank/home'' @ [CHR 0x27] @ '' is busy.''"
    by (simp add: load_key_aux_def encryption_root_def EACCES_def EINVAL_def EEXIST_def EBUSY_def)
  have ne: "EBUSY \<noteq> EACCES" by (simp add: EBUSY_def EACCES_def)
  have c5: "zfs_crypto_load_key_try ?EB ?h ?H False ZFS_KEYFORMAT_HEX ''prompt'' 0 0 0 Null
            = Inr (EBUSY, \<lparr>stdin = terminal [],
                  err_aux = [CHR 0x27] @ ''tank/home'' @ [CHR 0x27] @ '' is busy.''\<rparr>)"
    using load_key_retry_policy [THEN conjunct2, THEN conjunct2, THEN conjunct1, rule_format,
        OF g5, where attempts = 0 and key_data = Null]
    by (simp add: ne a5)
  have g6: "''prompt'' = ''prompt'' \<and> tty (stdin ?w) \<and> \<not> tc_fail (stdin ?w)
      \<and> ucast (ZFS_KEYFORMAT_PASSPHRASE :: uint64) \<noteq> (ZFS_KEYFORMAT_RAW :: zfs_keyformat_t)
      \<and> getline (data (stdin ?w)) = Some (ascii ''short'' @ [nl], ascii ''longenough'' @ [nl])
      \<and> validate_key_material (ucast (ZFS_KEYFORMAT_PASSPHRASE :: uint64))
             (trim_newline (ascii ''short'' @ [nl]))
             (length (trim_newline (ascii ''short'' @ [nl])))
           = Some (EINVAL, ''Passphrase too short (min 8).'')
      \<and> (3::int) \<le> MAX_KEY_PROMPT_ATTEMPTS \<and> Null \<noteq> Freed"
    by code_simp
  have s6: "?w\<lparr>stdin := (stdin ?w)\<lparr>data := ascii ''longenough'' @ [nl]\<rparr>,
               err_aux := ''Passphrase too short (min 8).''\<rparr> = ?w1"
    by (simp add: terminal_def)
  have c6: "zfs_crypto_load_key_try ?E ?w ?P False ZFS_KEYFORMAT_PASSPHRASE ''prompt'' 1
              0x1122334455667788 3 Null
            = zfs_crypto_load_key_try ?E ?w1 ?P False ZFS_KEYFORMAT_PASSPHRASE ''prompt'' 1
              0x1122334455667788 4 Null"
    using load_key_retry_policy [where E = ?E and zhp = ?P and noop = False and iters = 1
          and salt = "0x1122334455667788", THEN conjunct2, THEN conjunct2, THEN conjunct2,
        rule_format, OF g6, THEN conjunct2]
    unfolding s6 by simp
  show ?thesis
    using c1 c2 c3 c4 c5 c6 by blast
qed

text \<open>
  The second free on a run from the start of \<^verbatim>\<open>zfs_crypto_load_key\<close>: the first entry
  at the terminal is refused by the storage layer, the second is too short.
\<close>

lemma load_key_double_free_example:
  "zfs_crypto_load_key_try (working_env no_files sum_mac (\<lambda>name noop key. EACCES))
      \<lparr>stdin = terminal wrong_then_short, err_aux = []\<rparr>
      (encryption_root ''tank/home'' ZFS_KEYFORMAT_PASSPHRASE ''prompt'' ZFS_KEYSTATUS_UNAVAILABLE)
      False ZFS_KEYFORMAT_PASSPHRASE ''prompt'' 1 0x1122334455667788 0 Null
   = Inl (Double_free EINVAL \<lparr>stdin = terminal [], err_aux = ''Passphrase too short (min 8).''\<rparr>)"
  by code_simp

text \<open>
  The claim as it was stated fails: at a terminal, a first entry that is too short for
  a passphrase is not surfaced; the key is asked for again, and the second entry loads.
\<close>

theorem load_key_validation_retried_counterexample:
  "fst (get_key_material (working_env no_files sum_mac (\<lambda>name noop key. 0))
          \<lparr>stdin = terminal short_then_long, err_aux = []\<rparr> False
          ZFS_KEYFORMAT_PASSPHRASE ''prompt'') = EINVAL
   \<and> zfs_crypto_load_key (working_env no_files sum_mac (\<lambda>name noop key. 0))
       \<lparr>stdin = terminal short_then_long, err_aux = []\<rparr>
       (encryption_root ''tank/home'' ZFS_KEYFORMAT_PASSPHRASE ''prompt'' ZFS_KEYSTATUS_UNAVAILABLE)
       False None
     = (0, \<lparr>stdin = terminal [], err_aux = ''Passphrase too short (min 8).''\<rparr>)"
  by code_simp

subsection \<open>Hexadecimal key material\<close>

lemma hex_key_to_raw_loop_ok:
  assumes "\<forall>j < 2 * n. isxdigit (byte_at hex j)" and "m \<le> n" and "n \<le> length out"
  shows "hex_key_to_raw_loop hex (2 * n) (2 * m) out
           = (0, take m out
                 @ map (\<lambda>k. sscanf_02x (byte_at hex (2 * k)) (byte_at hex (2 * k + 1))) [m ..< n]
                 @ drop n out)"
  using assms(2,3)
proof (induction "n - m" arbitrary: m out)
  case 0
  then have "m = n" by simp
  then show ?case by (subst hex_key_to_raw_loop.simps) simp
next
  case (Suc d)
  then have lt: "m < n" by simp
  let ?v = "sscanf_02x (byte_at hex (2 * m)) (byte_at hex (2 * m + 1))"
  have x: "isxdigit (byte_at hex (2 * m))" "isxdigit (byte_at hex (2 * m + 1))"
    using assms(1) lt by simp_all
  have ih: "hex_key_to_raw_loop hex (2 * n) (2 * Suc m) (out[m := ?v])
      = (0, take (Suc m) (out[m := ?v])
            @ map (\<lambda>k. sscanf_02x (byte_at hex (2 * k)) (byte_at hex (2 * k + 1))) [Suc m ..< n]
            @ drop n (out[m := ?v]))"
    using Suc.hyps(1) [of "Suc m" "out[m := ?v]"] Suc.hyps(2) Suc.prems lt by simp
  have t: "take (Suc m) (out[m := ?v]) = take m out @ [?v]"
    using lt Suc.prems by (simp add: take_Suc_conv_app_nth)
  have d: "drop n (out[m := ?v]) = drop n out"
    using lt by simp
  have u: "[m ..< n] = m # [Suc m ..< n]"
    using lt by (simp add: upt_conv_Cons)
  have "hex_key_to_raw_loop hex (2 * n) (2 * m) out
          = hex_key_to_raw_loop hex (2 * n) (2 * Suc m) (out[m := ?v])"
    using lt x by (subst hex_key_to_raw_loop.simps) simp
  also have "\<dots> = (0, (take m out @ [?v])
            @ map (\<lambda>k. sscanf_02x (byte_at hex (2 * k)) (byte_at hex (2 * k + 1))) [Suc m ..< n]
            @ drop n out)"
    by (simp only: ih t d)
  finally show ?case by (simp only: u list.map append.simps append_assoc)
qed

lemma hex_key_to_raw_loop_bad:
  assumes "\<exists>j. 2 * m \<le> j \<and> j < 2 * n \<and> \<not> isxdigit (byte_at hex j)"
  shows "fst (hex_key_to_raw_loop hex (2 * n) (2 * m) out) = EINVAL"
  using assms
proof (induction "n - m" arbitrary: m out)
  case 0
  then show ?case by auto
next
  case (Suc d)
  then have lt: "m < n" by simp
  show ?case
  proof (cases "isxdigit (byte_at hex (2 * m)) \<and> isxdigit (byte_at hex (2 * m + 1))")
    case False
    then show ?thesis using lt by (subst hex_key_to_raw_loop.simps) auto
  next
    case True
    obtain j where j: "2 * m \<le> j" "j < 2 * n" "\<not> isxdigit (byte_at hex j)"
      using Suc.prems by blast
    have "j \<noteq> 2 * m" "j \<noteq> 2 * m + 1" using True j(3) by auto
    then have "2 * Suc m \<le> j" using j(1) by simp
    then have e: "\<exists>j. 2 * Suc m \<le> j \<and> j < 2 * n \<and> \<not> isxdigit (byte_at hex j)"
      using j by blast
    have "fst (hex_key_to_raw_loop hex (2 * n) (2 * Suc m)
                (out[m := sscanf_02x (byte_at hex (2 * m)) (byte_at hex (2 * m + 1))])) = EINVAL"
      using Suc.hyps(1) [of "Suc m", OF _ e] Suc.hyps(2) by simp
    then show ?thesis using lt True by (subst hex_key_to_raw_loop.simps) simp
  qed
qed

lemma not_isxdigit_zero: "\<not> isxdigit 0"
  by (simp add: isxdigit_def)

lemma hex_key_to_raw_decodes:
  assumes "length km = 64" and "\<forall>c \<in> set km. isxdigit c"
  shows "hex_key_to_raw km 64 (replicate 32 0) = (0, hex_decode km)"
proof -
  have a: "\<forall>j < 2 * 32. isxdigit (byte_at km j)"
    using assms by (simp add: byte_at_def)
  have "hex_key_to_raw_loop km (2 * 32) (2 * 0) (replicate 32 0)
      = (0, take 0 (replicate 32 0)
            @ map (\<lambda>k. sscanf_02x (byte_at km (2 * k)) (byte_at km (2 * k + 1))) [0 ..< 32]
            @ drop 32 (replicate 32 0))"
    by (rule hex_key_to_raw_loop_ok [OF a]) simp_all
  moreover have "map (\<lambda>k. sscanf_02x (byte_at km (2 * k)) (byte_at km (2 * k + 1))) [0 ..< 32]
      = hex_decode km"
    using assms(1) by (simp add: hex_decode_def sscanf_02x_def byte_at_def)
  ultimately show ?thesis by (simp add: hex_key_to_raw_def)
qed

lemma hex_key_to_raw_rejects:
  assumes "\<not> (64 \<le> length km \<and> (\<forall>c \<in> set (take 64 km). isxdigit c))"
  shows "fst (hex_key_to_raw km 64 out) = EINVAL"
proof -
  have "\<exists>j. 2 * 0 \<le> j \<and> j < 2 * 32 \<and> \<not> isxdigit (byte_at km j)"
  proof (cases "64 \<le> length km")
    case True
    then obtain c where "c \<in> set (take 64 km)" "\<not> isxdigit c" using assms by blast
    then obtain j where "j < 64" "km ! j = c"
      using True by (auto simp: in_set_conv_nth)
    then show ?thesis using True \<open>\<not> isxdigit c\<close> by (auto simp: byte_at_def intro!: exI [of _ j])
  next
    case False
    then have "byte_at km (length km) = 0" "length km < 64" by (simp_all add: byte_at_def)
    then show ?thesis using not_isxdigit_zero by (auto intro!: exI [of _ "length km"])
  qed
  from hex_key_to_raw_loop_bad [OF this, of out]
  show ?thesis by (simp add: hex_key_to_raw_def)
qed

lemma get_key_material_raw_getline:
  assumes "\<not> (tty fd \<and> tc_fail fd)" and "keyformat \<noteq> ZFS_KEYFORMAT_RAW"
    and "getline (data fd) = Some (line, rest)"
  shows "get_key_material_raw fd keyformat
           = (0, trim_newline line, length (trim_newline line), fd\<lparr>data := rest\<rparr>)"
  using assms by (auto simp: get_key_material_raw_def)

lemma validate_hex:
  "validate_key_material ZFS_KEYFORMAT_HEX km (length km)
     = (if length km < 64 then Some (EINVAL, ''Hex key too short (expected 64).'')
        else if length km > 64 then Some (EINVAL, ''Hex key too long (expected 64).'')
        else if \<exists>c \<in> set km. \<not> isxdigit c
          then Some (EINVAL, ''Invalid hex character detected.'')
        else None)"
proof -
  have "(\<exists>i \<in> set [0 ..< 64]. \<not> isxdigit (byte_at km i)) = (\<exists>c \<in> set km. \<not> isxdigit c)"
    if l: "length km = 64"
  proof
    assume "\<exists>i \<in> set [0 ..< 64]. \<not> isxdigit (byte_at km i)"
    then obtain i where "i < 64" "\<not> isxdigit (km ! i)" using l by (auto simp: byte_at_def)
    then show "\<exists>c \<in> set km. \<not> isxdigit c" using l nth_mem [of i km] by auto
  next
    assume "\<exists>c \<in> set km. \<not> isxdigit c"
    then obtain i where "i < 64" "\<not> isxdigit (km ! i)" using l by (auto simp: in_set_conv_nth)
    then have "i \<in> set [0 ..< 64]" "\<not> isxdigit (byte_at km i)" using l by (simp_all add: byte_at_def)
    then show "\<exists>i \<in> set [0 ..< 64]. \<not> isxdigit (byte_at km i)" by blast
  qed
  then show ?thesis
    by (auto simp: validate_key_material_def ZFS_KEYFORMAT_HEX_def ZFS_KEYFORMAT_RAW_def
        WRAPPING_KEY_LEN_def)
qed

lemma get_key_material_opened:
  assumes "(keylocation = ''prompt'' \<and> fd = stdin w \<and> is_stdin \<and> cr = tty (stdin w)
              \<and> \<not> (tty (stdin w) \<and> keyformat = ZFS_KEYFORMAT_RAW))
         \<or> (zfs_prop_parse_keylocation keylocation = ZFS_KEYLOCATION_URI
              \<and> fopen E (drop 7 keylocation) = Inr fd \<and> \<not> is_stdin \<and> \<not> cr)"
  shows "get_key_material E w do_verify keyformat keylocation
           = get_key_material_fd w do_verify keyformat fd is_stdin cr"
  using assms by (auto simp: get_key_material_def zfs_prop_parse_keylocation_def)

text \<open>
  Claim C5. Key material in the hexadecimal format, read as one line (its ending newline
  removed) from standard input or from the file of the key location, with no second
  entry asked for: \<^verbatim>\<open>get_key_material\<close> returns 0 if and only if the line has exactly 64
  characters and every one is a hexadecimal digit, and \<^verbatim>\<open>EINVAL\<close> otherwise; on success
  it hands out the line itself. For such a line \<^verbatim>\<open>derive_key\<close> returns the 32 bytes
  that the pairs of characters write, the first character of a pair being the high
  nibble; for any other buffer it returns \<^verbatim>\<open>EINVAL\<close>.
\<close>

theorem hex_key_material:
  assumes src: "(keylocation = ''prompt'' \<and> fd = stdin w)
         \<or> (zfs_prop_parse_keylocation keylocation = ZFS_KEYLOCATION_URI
              \<and> fopen E (drop 7 keylocation) = Inr fd)"
    and noverify: "\<not> (do_verify \<and> tty fd)"
    and term_ok: "\<not> (tty fd \<and> tc_fail fd)"
    and read: "getline (data fd) = Some (line, rest)"
    and km: "km = trim_newline line"
  shows "(fst (get_key_material E w do_verify ZFS_KEYFORMAT_HEX keylocation) = 0
            \<longleftrightarrow> length km = 64 \<and> (\<forall>c \<in> set km. isxdigit c))
       \<and> (fst (get_key_material E w do_verify ZFS_KEYFORMAT_HEX keylocation) \<noteq> 0 \<longrightarrow>
            fst (get_key_material E w do_verify ZFS_KEYFORMAT_HEX keylocation) = EINVAL)
       \<and> (fst (get_key_material E w do_verify ZFS_KEYFORMAT_HEX keylocation) = 0 \<longrightarrow>
            fst (snd (get_key_material E w do_verify ZFS_KEYFORMAT_HEX keylocation)) = km
            \<and> fst (snd (snd (get_key_material E w do_verify ZFS_KEYFORMAT_HEX keylocation))) = 64)
       \<and> (length km = 64 \<and> (\<forall>c \<in> set km. isxdigit c) \<longrightarrow>
            derive_key E w' ZFS_KEYFORMAT_HEX iters km 64 salt = (0, Some (hex_decode km), w')
            \<and> length (hex_decode km) = 32
            \<and> (\<forall>k < 32. hex_decode km ! k
                  = 16 * hex_digit_value (km ! (2 * k)) + hex_digit_value (km ! (2 * k + 1))))
       \<and> (\<not> (64 \<le> length buf \<and> (\<forall>c \<in> set (take 64 buf). isxdigit c)) \<longrightarrow>
            fst (derive_key E w' ZFS_KEYFORMAT_HEX iters buf buflen salt) = EINVAL)"
proof -
  have hexraw: "ZFS_KEYFORMAT_HEX \<noteq> (ZFS_KEYFORMAT_RAW :: zfs_keyformat_t)"
    by (simp add: ZFS_KEYFORMAT_HEX_def ZFS_KEYFORMAT_RAW_def)
  have raw: "get_key_material_raw fd ZFS_KEYFORMAT_HEX = (0, km, length km, fd\<lparr>data := rest\<rparr>)"
    using get_key_material_raw_getline [OF term_ok hexraw read] km by simp
  have opened: "\<exists>is_stdin cr. get_key_material E w do_verify ZFS_KEYFORMAT_HEX keylocation
           = get_key_material_fd w do_verify ZFS_KEYFORMAT_HEX fd is_stdin cr"
  proof (rule disjE [OF src])
    assume "keylocation = ''prompt'' \<and> fd = stdin w"
    then show ?thesis
      using get_key_material_opened [of keylocation fd w True "tty (stdin w)" ZFS_KEYFORMAT_HEX E do_verify]
        hexraw by blast
  next
    assume "zfs_prop_parse_keylocation keylocation = ZFS_KEYLOCATION_URI
              \<and> fopen E (drop 7 keylocation) = Inr fd"
    then show ?thesis
      using get_key_material_opened [of keylocation fd w False False ZFS_KEYFORMAT_HEX E do_verify]
      by blast
  qed
  then obtain is_stdin cr where g: "get_key_material E w do_verify ZFS_KEYFORMAT_HEX keylocation
           = get_key_material_fd w do_verify ZFS_KEYFORMAT_HEX fd is_stdin cr" by blast
  have fdres: "get_key_material_fd w do_verify ZFS_KEYFORMAT_HEX fd is_stdin cr
      = (case validate_key_material ZFS_KEYFORMAT_HEX km (length km) of
           Some (e, msg) \<Rightarrow>
             (e, [], 0, cr, (if is_stdin then w\<lparr>stdin := fd\<lparr>data := rest\<rparr>\<rparr> else w)\<lparr>err_aux := msg\<rparr>)
         | None \<Rightarrow> (0, km, length km, cr, (if is_stdin then w\<lparr>stdin := fd\<lparr>data := rest\<rparr>\<rparr> else w)))"
    using noverify by (auto simp: get_key_material_fd_def raw Let_def split: option.splits)
  have p123: "(fst (get_key_material E w do_verify ZFS_KEYFORMAT_HEX keylocation) = 0
            \<longleftrightarrow> length km = 64 \<and> (\<forall>c \<in> set km. isxdigit c))
       \<and> (fst (get_key_material E w do_verify ZFS_KEYFORMAT_HEX keylocation) \<noteq> 0 \<longrightarrow>
            fst (get_key_material E w do_verify ZFS_KEYFORMAT_HEX keylocation) = EINVAL)
       \<and> (fst (get_key_material E w do_verify ZFS_KEYFORMAT_HEX keylocation) = 0 \<longrightarrow>
            fst (snd (get_key_material E w do_verify ZFS_KEYFORMAT_HEX keylocation)) = km
            \<and> fst (snd (snd (get_key_material E w do_verify ZFS_KEYFORMAT_HEX keylocation))) = 64)"
    unfolding g fdres validate_hex by (auto simp: EINVAL_def)
  have p4: "length km = 64 \<and> (\<forall>c \<in> set km. isxdigit c) \<longrightarrow>
            derive_key E w' ZFS_KEYFORMAT_HEX iters km 64 salt = (0, Some (hex_decode km), w')
            \<and> length (hex_decode km) = 32
            \<and> (\<forall>k < 32. hex_decode km ! k
                  = 16 * hex_digit_value (km ! (2 * k)) + hex_digit_value (km ! (2 * k + 1)))"
  proof (intro impI)
    assume h: "length km = 64 \<and> (\<forall>c \<in> set km. isxdigit c)"
    then have "hex_key_to_raw km 64 (replicate 32 0) = (0, hex_decode km)"
      using hex_key_to_raw_decodes by blast
    then have "derive_key E w' ZFS_KEYFORMAT_HEX iters km 64 salt = (0, Some (hex_decode km), w')"
      using hexraw by (simp add: derive_key_def WRAPPING_KEY_LEN_def)
    moreover have "length (hex_decode km) = 32" using h by (simp add: hex_decode_def)
    moreover have "\<forall>k < 32. hex_decode km ! k
                  = 16 * hex_digit_value (km ! (2 * k)) + hex_digit_value (km ! (2 * k + 1))"
      using h by (simp add: hex_decode_def)
    ultimately show "derive_key E w' ZFS_KEYFORMAT_HEX iters km 64 salt = (0, Some (hex_decode km), w')
            \<and> length (hex_decode km) = 32
            \<and> (\<forall>k < 32. hex_decode km ! k
                  = 16 * hex_digit_value (km ! (2 * k)) + hex_digit_value (km ! (2 * k + 1)))"
      by blast
  qed
  have p5: "\<not> (64 \<le> length buf \<and> (\<forall>c \<in> set (take 64 buf). isxdigit c)) \<longrightarrow>
            fst (derive_key E w' ZFS_KEYFORMAT_HEX iters buf buflen salt) = EINVAL"
  proof (intro impI)
    assume "\<not> (64 \<le> length buf \<and> (\<forall>c \<in> set (take 64 buf). isxdigit c))"
    then have e: "fst (hex_key_to_raw buf 64 (replicate 32 0)) = EINVAL"
      by (rule hex_key_to_raw_rejects)
    then show "fst (derive_key E w' ZFS_KEYFORMAT_HEX iters buf buflen salt) = EINVAL"
      using hexraw
      by (cases "hex_key_to_raw buf 64 (replicate 32 0)")
        (simp add: derive_key_def WRAPPING_KEY_LEN_def EINVAL_def)
  qed
  show ?thesis using p123 p4 p5 by blast
qed


lemma hex_line_valid: "length hex_line = 64 \<and> (\<forall>c \<in> set hex_line. isxdigit c)"
  by code_simp

theorem hex_key_material_witness:
  "fst (get_key_material (working_env (one_file ''/k'' (hex_line @ [nl])) sum_mac (\<lambda>n b k. 0))
         \<lparr>stdin = terminal [], err_aux = []\<rparr> False ZFS_KEYFORMAT_HEX ''file:///k'') = 0
   \<and> derive_key (working_env (one_file ''/k'' (hex_line @ [nl])) sum_mac (\<lambda>n b k. 0))
         \<lparr>stdin = terminal [], err_aux = []\<rparr> ZFS_KEYFORMAT_HEX 0 hex_line 64 0
       = (0, Some (hex_decode hex_line), \<lparr>stdin = terminal [], err_aux = []\<rparr>)"
proof -
  let ?E = "working_env (one_file ''/k'' (hex_line @ [nl])) sum_mac (\<lambda>n b k. 0)"
  have nonl: "\<forall>c \<in> set hex_line. c \<noteq> 0x0A"
    using hex_line_valid by (auto simp: isxdigit_def)
  have src: "(''file:///k'' = ''prompt'' \<and> disk_file (hex_line @ [nl]) = stdin \<lparr>stdin = terminal [], err_aux = []\<rparr>)
         \<or> (zfs_prop_parse_keylocation ''file:///k'' = ZFS_KEYLOCATION_URI
              \<and> fopen ?E (drop 7 ''file:///k'') = Inr (disk_file (hex_line @ [nl])))"
    by (simp add: zfs_prop_parse_keylocation_def working_env_def one_file_def)
  have nv: "\<not> (False \<and> tty (disk_file (hex_line @ [nl])))" by simp
  have tc: "\<not> (tty (disk_file (hex_line @ [nl])) \<and> tc_fail (disk_file (hex_line @ [nl])))"
    by (simp add: disk_file_def)
  have ne: "hex_line \<noteq> []" using hex_line_valid by auto
  have rd: "getline (data (disk_file (hex_line @ [nl]))) = Some (hex_line @ [nl], [])"
    using nonl ne by (simp add: getline_def disk_file_def nl_def Let_def takeWhile_append2
        dropWhile_append2)
  have km: "hex_line = trim_newline (hex_line @ [nl])"
    by (simp add: trim_newline_def nl_def)
  show ?thesis
    using hex_key_material [OF src nv tc rd km, where w' = "\<lparr>stdin = terminal [], err_aux = []\<rparr>"
        and iters = 0 and salt = 0] hex_line_valid
    by blast
qed

lemma hex_key_material_example:
  "derive_key (working_env no_files sum_mac (\<lambda>n b k. 0)) \<lparr>stdin = terminal [], err_aux = []\<rparr>
     ZFS_KEYFORMAT_HEX 0 hex_line 64 0
   = (0, Some (replicate 32 0xA5), \<lparr>stdin = terminal [], err_aux = []\<rparr>)"
  by code_simp

text \<open>
  A key file with no byte in it: the read fails, and the code is the \<^verbatim>\<open>ENOTTY\<close> that
  \<^verbatim>\<open>isatty\<close> has left in \<^verbatim>\<open>errno\<close>.
\<close>

lemma empty_key_file:
  "get_key_material (working_env (one_file ''/empty.key'' []) sum_mac (\<lambda>n b k. 0))
     \<lparr>stdin = terminal [], err_aux = []\<rparr> False ZFS_KEYFORMAT_HEX ''file:///empty.key''
   = (ENOTTY, [], 0, False, \<lparr>stdin = terminal [], err_aux = []\<rparr>)"
  by code_simp

subsection \<open>Raw key material\<close>

lemma get_key_material_raw_fread:
  assumes "\<not> tty fd"
  shows "get_key_material_raw fd ZFS_KEYFORMAT_RAW
           = (0, trim_newline (take 33 (data fd)), length (trim_newline (take 33 (data fd))),
              fd\<lparr>data := drop 33 (data fd)\<rparr>)"
  using assms by (simp add: get_key_material_raw_def WRAPPING_KEY_LEN_def Let_def)

lemma validate_raw:
  "validate_key_material ZFS_KEYFORMAT_RAW km (length km)
     = (if length km < 32 then Some (EINVAL, ''Raw key too short (expected 32).'')
        else if length km > 32 then Some (EINVAL, ''Raw key too long (expected 32).'')
        else None)"
  by (simp add: validate_key_material_def WRAPPING_KEY_LEN_def)

text \<open>
  What \<^verbatim>\<open>get_key_material\<close> does with a raw key read from a file, by the length of the
  file and its last byte.
\<close>

lemma raw_key_material:
  assumes "zfs_prop_parse_keylocation keylocation = ZFS_KEYLOCATION_URI"
    and "fopen E (drop 7 keylocation) = Inr fd" and "\<not> tty fd" and "data fd = content"
  shows "(length content = 32 \<and> last content \<noteq> 0x0A \<longrightarrow>
            get_key_material E w v ZFS_KEYFORMAT_RAW keylocation = (0, content, 32, False, w)
            \<and> derive_key E w ZFS_KEYFORMAT_RAW iters content 32 salt = (0, Some content, w))
       \<and> (length content = 32 \<and> last content = 0x0A \<longrightarrow>
            get_key_material E w v ZFS_KEYFORMAT_RAW keylocation
              = (EINVAL, [], 0, False, w\<lparr>err_aux := ''Raw key too short (expected 32).''\<rparr>))
       \<and> (length content = 31 \<longrightarrow>
            get_key_material E w v ZFS_KEYFORMAT_RAW keylocation
              = (EINVAL, [], 0, False, w\<lparr>err_aux := ''Raw key too short (expected 32).''\<rparr>))
       \<and> (length content = 33 \<and> last content \<noteq> 0x0A \<longrightarrow>
            get_key_material E w v ZFS_KEYFORMAT_RAW keylocation
              = (EINVAL, [], 0, False, w\<lparr>err_aux := ''Raw key too long (expected 32).''\<rparr>))
       \<and> (length content = 33 \<and> last content = 0x0A \<longrightarrow>
            get_key_material E w v ZFS_KEYFORMAT_RAW keylocation
              = (0, butlast content, 32, False, w))"
proof -
  have g: "get_key_material E w v ZFS_KEYFORMAT_RAW keylocation
      = (case validate_key_material ZFS_KEYFORMAT_RAW (trim_newline (take 33 content))
                (length (trim_newline (take 33 content))) of
           Some (e, msg) \<Rightarrow> (e, [], 0, False, w\<lparr>err_aux := msg\<rparr>)
         | None \<Rightarrow> (0, trim_newline (take 33 content), length (trim_newline (take 33 content)),
                     False, w))"
    using assms
    by (auto simp: get_key_material_def get_key_material_fd_def get_key_material_raw_fread
        split: option.splits)
  have d: "length content = 32 \<longrightarrow>
       derive_key E w ZFS_KEYFORMAT_RAW iters content 32 salt = (0, Some content, w)"
    by (simp add: derive_key_def WRAPPING_KEY_LEN_def)
  have ne: "length content = 31 \<Longrightarrow> content \<noteq> []" "length content = 32 \<Longrightarrow> content \<noteq> []"
    "length content = 33 \<Longrightarrow> content \<noteq> []" by auto
  show ?thesis
    unfolding g validate_raw using d ne
    by (auto simp: trim_newline_def)
qed

text \<open>
  Claim C4, where the code departs from it. The trim of an ending newline is applied to
  raw keys too, although they "may have newline characters in them", as the comment at
  the read says: a raw key of 32 bytes whose last byte is the newline character loses
  that byte and is rejected as too short.
\<close>

theorem raw_key_ending_in_newline:
  "get_key_material (working_env (one_file ''/raw.key'' (replicate 31 0x5A @ [0x0A])) sum_mac (\<lambda>n b k. 0))
     \<lparr>stdin = terminal [], err_aux = []\<rparr> False ZFS_KEYFORMAT_RAW ''file:///raw.key''
   = (EINVAL, [], 0, False,
      \<lparr>stdin = terminal [], err_aux = ''Raw key too short (expected 32).''\<rparr>)"
  by code_simp

subsection \<open>PBKDF2 with a passphrase\<close>

lemma length_buf_write:
  "off + length src \<le> length buf \<Longrightarrow> length (buf_write buf off src) = length buf"
  by (simp add: buf_write_def)

lemma take_buf_write_0:
  "length src \<le> length buf \<Longrightarrow> take (length src) (buf_write buf 0 src) = src"
  by (simp add: buf_write_def)

lemma pbkdf2_U_length:
  assumes "\<forall>d. length (H P d) = 20"
  shows "length (pbkdf2_U H P S i j) = 20"
  using assms by (cases j) simp_all

lemma foldl_xor_length:
  assumes "length blk = 20" and "\<forall>u \<in> set us. length u = 20"
  shows "length (foldl xor_bytes blk us) = 20"
  using assms by (induction us arbitrary: blk) (simp_all add: xor_bytes_def)

lemma pbkdf2_T_length:
  assumes "\<forall>d. length (H P d) = 20"
  shows "length (pbkdf2_T H P S c i) = 20"
  unfolding pbkdf2_T_def
  by (rule foldl_xor_length) (simp_all add: pbkdf2_U_length [where H = H and P = P, OF assms])

lemma pbkdf2_iter_loop_tail:
  assumes mac: "\<forall>d. crypto_mac E P d = (CRYPTO_SUCCESS, H P d)"
    and len: "\<forall>d. length (H P d) = 20"
  shows "1 \<le> iter \<Longrightarrow> iter \<le> c \<Longrightarrow> 20 \<le> length hk
          \<Longrightarrow> take 20 hk = pbkdf2_U H P S i (iter - 1) \<Longrightarrow>
         \<exists>hk'. length hk' = length hk
               \<and> pbkdf2_iter_loop E P saltlen c iter hk blk
                   = Inr (hk', foldl xor_bytes blk (map (pbkdf2_U H P S i) [iter ..< c]))"
proof (induction "c - iter" arbitrary: iter hk blk)
  case 0
  then have "iter = c" by simp
  then show ?case by (subst pbkdf2_iter_loop.simps) simp
next
  case (Suc n)
  then have lt: "iter < c" by simp
  let ?u = "H P (take 20 hk)"
  let ?hk1 = "buf_write hk 0 (take 20 ?u)"
  have u: "?u = pbkdf2_U H P S i iter"
    using Suc.prems by (cases iter) simp_all
  have lu: "length ?u = 20" using len by simp
  have l1: "length ?hk1 = length hk"
    using Suc.prems lu by (simp add: length_buf_write)
  have t1: "take 20 ?hk1 = pbkdf2_U H P S i (Suc iter - 1)"
    using take_buf_write_0 [of "take 20 ?u" hk] Suc.prems lu u by simp
  have n: "n = c - Suc iter" using Suc.hyps(2) by simp
  have l20: "20 \<le> length ?hk1" using l1 Suc.prems by simp
  have "\<exists>hk'. length hk' = length ?hk1
          \<and> pbkdf2_iter_loop E P saltlen c (Suc iter) ?hk1 (xor_bytes blk ?u)
         = Inr (hk', foldl xor_bytes (xor_bytes blk ?u) (map (pbkdf2_U H P S i) [Suc iter ..< c]))"
    using lt by (intro Suc.hyps(1) [OF n _ _ l20 t1]) simp_all
  then obtain hk' where hk': "length hk' = length ?hk1"
      "pbkdf2_iter_loop E P saltlen c (Suc iter) ?hk1 (xor_bytes blk ?u)
         = Inr (hk', foldl xor_bytes (xor_bytes blk ?u) (map (pbkdf2_U H P S i) [Suc iter ..< c]))"
    by blast
  have step: "pbkdf2_iter_loop E P saltlen c iter hk blk
        = pbkdf2_iter_loop E P saltlen c (Suc iter) ?hk1 (xor_bytes blk ?u)"
    using lt Suc.prems(1) mac
    by (subst pbkdf2_iter_loop.simps)
       (simp add: SHA1_DIGEST_LEN_def Let_def xor_bytes_def)
  have up: "[iter ..< c] = iter # [Suc iter ..< c]"
    using lt by (simp add: upt_conv_Cons)
  show ?case
    using hk' l1 by (simp add: step up u)
qed

lemma pbkdf2_iter_loop_block:
  assumes mac: "\<forall>d. crypto_mac E P d = (CRYPTO_SUCCESS, H P d)"
    and len: "\<forall>d. length (H P d) = 20"
    and hk: "20 \<le> length hk" "length S + 4 \<le> length hk"
    and msg: "take (length S + 4) hk = S @ be32_bytes (of_nat i)"
  shows "\<exists>hk'. length hk' = length hk
               \<and> pbkdf2_iter_loop E P (length S) c 0 hk (replicate 20 0)
                   = Inr (hk', pbkdf2_T H P S c i)"
proof (cases c)
  case 0
  then show ?thesis
    by (subst pbkdf2_iter_loop.simps) (simp add: pbkdf2_T_def)
next
  case (Suc n)
  let ?u = "H P (S @ be32_bytes (of_nat i))"
  let ?hk1 = "buf_write hk 0 (take 20 ?u)"
  have lu: "length ?u = 20" using len by simp
  have l1: "length ?hk1 = length hk" using hk lu by (simp add: length_buf_write)
  have t1: "take 20 ?hk1 = pbkdf2_U H P S i (1 - 1)"
    using take_buf_write_0 [of "take 20 ?u" hk] hk lu by simp
  have l20: "20 \<le> length ?hk1" using l1 hk by simp
  have "\<exists>hk'. length hk' = length ?hk1
          \<and> pbkdf2_iter_loop E P (length S) c 1 ?hk1 (xor_bytes (replicate 20 0) ?u)
         = Inr (hk', foldl xor_bytes (xor_bytes (replicate 20 0) ?u)
                       (map (pbkdf2_U H P S i) [1 ..< c]))"
    using Suc
    by (intro pbkdf2_iter_loop_tail [where H = H and P = P, OF mac len _ _ l20 t1]) simp_all
  then obtain hk' where hk': "length hk' = length ?hk1"
      "pbkdf2_iter_loop E P (length S) c 1 ?hk1 (xor_bytes (replicate 20 0) ?u)
         = Inr (hk', foldl xor_bytes (xor_bytes (replicate 20 0) ?u)
                       (map (pbkdf2_U H P S i) [1 ..< c]))"
    by blast
  have step: "pbkdf2_iter_loop E P (length S) c 0 hk (replicate 20 0)
        = pbkdf2_iter_loop E P (length S) c 1 ?hk1 (xor_bytes (replicate 20 0) ?u)"
    using Suc mac msg
    by (subst pbkdf2_iter_loop.simps)
       (simp add: SHA1_DIGEST_LEN_def Let_def xor_bytes_def)
  have up: "[0 ..< c] = 0 # [1 ..< c]"
    using Suc by (simp add: upt_conv_Cons)
  show ?thesis
    using hk' l1 by (simp add: step pbkdf2_T_def up)
qed


lemma length_be32_bytes: "length (be32_bytes v) = 4"
  by (simp add: be32_bytes_def)

lemma length_le64_bytes: "length (le64_bytes v) = 8"
  by (simp add: le64_bytes_def)

lemma pbkdf2_block:
  assumes mac: "\<forall>d. crypto_mac E P d = (CRYPTO_SUCCESS, H P d)"
    and len: "\<forall>d. length (H P d) = 20"
    and S: "length S \<le> 16" and hk: "length hk = 20"
  shows "\<exists>hk'. length hk' = 20
               \<and> pbkdf2_iter_loop E P (length S) c 0
                    (buf_write (buf_write hk 0 S) (length S) (be32_bytes (of_nat i)))
                    (replicate 20 0)
                   = Inr (hk', pbkdf2_T H P S c i)"
proof -
  let ?hk1 = "buf_write (buf_write hk 0 S) (length S) (be32_bytes (of_nat i))"
  have l: "length ?hk1 = 20"
    using S hk by (simp add: length_buf_write length_be32_bytes)
  have t: "take (length S + 4) ?hk1 = S @ be32_bytes (of_nat i)"
    using S hk by (simp add: buf_write_def length_be32_bytes)
  have "\<exists>hk'. length hk' = length ?hk1
               \<and> pbkdf2_iter_loop E P (length S) c 0 ?hk1 (replicate 20 0)
                   = Inr (hk', pbkdf2_T H P S c i)"
    using S l by (intro pbkdf2_iter_loop_block [where H = H and P = P, OF mac len _ _ t]) simp_all
  then show ?thesis using l by simp
qed

lemma pbkdf2_main_loop_step:
  assumes "blockptr < outputlen"
    and "pbkdf2_iter_loop E P (length S) c 0
           (buf_write (buf_write hk 0 S) (length S)
              (be32_bytes (of_nat (1 + blockptr div 20))))
           (replicate 20 0) = Inr (hk', blk)"
  shows "pbkdf2_main_loop E P S c outputlen blockptr hk out
         = pbkdf2_main_loop E P S c outputlen (blockptr + 20) hk'
             (if blockptr + 20 > outputlen
              then buf_write out blockptr (take (outputlen - blockptr) blk)
              else buf_write out blockptr blk)"
  using assms
  by (subst pbkdf2_main_loop.simps) (simp add: SHA1_DIGEST_LEN_def Let_def)

lemma pbkdf2_refines:
  assumes tmpl: "crypto_create_ctx_template E P = CRYPTO_SUCCESS"
    and mac: "\<forall>d. crypto_mac E P d = (CRYPTO_SUCCESS, H P d)"
    and len: "\<forall>d. length (H P d) = 20"
    and S: "length S \<le> 16"
  shows "pbkdf2 E P S c 32 = (0, pbkdf2_hmac H P S c 32)"
proof -
  let ?T1 = "pbkdf2_T H P S c 1" and ?T2 = "pbkdf2_T H P S c 2"
  let ?z20 = "replicate 20 (0 :: byte)" and ?z32 = "replicate 32 (0 :: byte)"
  have lT: "length ?T1 = 20" "length ?T2 = 20"
    by (simp_all add: pbkdf2_T_length [where H = H and P = P, OF len])
  have "\<exists>hk'. length hk' = 20
          \<and> pbkdf2_iter_loop E P (length S) c 0
              (buf_write (buf_write ?z20 0 S) (length S) (be32_bytes (of_nat (1 + 0 div 20))))
              ?z20 = Inr (hk', pbkdf2_T H P S c (1 + 0 div 20))"
    by (rule pbkdf2_block [where H = H and P = P, OF mac len S]) simp
  then obtain hk1 where hk1: "length hk1 = 20"
    "pbkdf2_iter_loop E P (length S) c 0
       (buf_write (buf_write ?z20 0 S) (length S) (be32_bytes (of_nat (1 + 0 div 20))))
       ?z20 = Inr (hk1, pbkdf2_T H P S c (1 + 0 div 20))"
    by blast
  have "\<exists>hk'. length hk' = 20
          \<and> pbkdf2_iter_loop E P (length S) c 0
              (buf_write (buf_write hk1 0 S) (length S) (be32_bytes (of_nat (1 + 20 div 20))))
              ?z20 = Inr (hk', pbkdf2_T H P S c (1 + 20 div 20))"
    by (rule pbkdf2_block [where H = H and P = P, OF mac len S hk1(1)])
  then obtain hk2 where hk2: "length hk2 = 20"
    "pbkdf2_iter_loop E P (length S) c 0
       (buf_write (buf_write hk1 0 S) (length S) (be32_bytes (of_nat (1 + 20 div 20))))
       ?z20 = Inr (hk2, pbkdf2_T H P S c (1 + 20 div 20))"
    by blast
  have "1 + 0 div 20 = (1 :: nat)" "1 + 20 div 20 = (2 :: nat)"
    by simp_all
  then have i: "pbkdf2_T H P S c (1 + 0 div 20) = ?T1" "pbkdf2_T H P S c (1 + 20 div 20) = ?T2"
    by (simp_all only:)
  have o1: "buf_write ?z32 0 ?T1 = ?T1 @ replicate 12 0"
    using lT by (simp add: buf_write_def)
  have o2: "buf_write (?T1 @ replicate 12 0) 20 (take 12 ?T2) = ?T1 @ take 12 ?T2"
    using lT by (simp add: buf_write_def)
  have "pbkdf2_main_loop E P S c 32 0 ?z20 ?z32
        = pbkdf2_main_loop E P S c 32 (0 + 20) hk1
            (if 0 + 20 > (32 :: nat)
             then buf_write ?z32 0 (take (32 - 0) (pbkdf2_T H P S c (1 + 0 div 20)))
             else buf_write ?z32 0 (pbkdf2_T H P S c (1 + 0 div 20)))"
    by (rule pbkdf2_main_loop_step [OF _ hk1(2)]) simp
  also have "\<dots> = pbkdf2_main_loop E P S c 32 20 hk1 (?T1 @ replicate 12 0)"
    by (simp only: i o1) simp
  also have "\<dots> = pbkdf2_main_loop E P S c 32 (20 + 20) hk2
            (if 20 + 20 > (32 :: nat)
             then buf_write (?T1 @ replicate 12 0) 20
                    (take (32 - 20) (pbkdf2_T H P S c (1 + 20 div 20)))
             else buf_write (?T1 @ replicate 12 0) 20 (pbkdf2_T H P S c (1 + 20 div 20)))"
    by (rule pbkdf2_main_loop_step [OF _ hk2(2)]) simp
  also have "\<dots> = pbkdf2_main_loop E P S c 32 40 hk2 (?T1 @ take 12 ?T2)"
    by (simp only: i) (simp add: o2 del: One_nat_def)
  also have "\<dots> = (0, ?T1 @ take 12 ?T2)"
    by (subst pbkdf2_main_loop.simps) simp
  finally have loop: "pbkdf2_main_loop E P S c 32 0 ?z20 ?z32 = (0, ?T1 @ take 12 ?T2)" .
  have up: "[1 ..< Suc ((32 + 19) div 20)] = [1, 2]"
    by (simp add: upt_rec)
  have spec: "pbkdf2_hmac H P S c 32 = ?T1 @ take 12 ?T2"
    unfolding pbkdf2_hmac_def up using lT by simp
  show ?thesis
    using tmpl S by (simp add: pbkdf2_def Let_def SHA1_DIGEST_LEN_def loop spec)
qed

lemma derive_key_passphrase_refines:
  assumes "crypto_create_ctx_template E (takeWhile (\<lambda>c. c \<noteq> 0) key_material) = CRYPTO_SUCCESS"
    and "\<forall>d. crypto_mac E (takeWhile (\<lambda>c. c \<noteq> 0) key_material) d
               = (CRYPTO_SUCCESS, H (takeWhile (\<lambda>c. c \<noteq> 0) key_material) d)"
    and "\<forall>d. length (H (takeWhile (\<lambda>c. c \<noteq> 0) key_material) d) = 20"
  shows "derive_key E w ZFS_KEYFORMAT_PASSPHRASE iters key_material key_material_len salt
         = (0, Some (pbkdf2_hmac H (takeWhile (\<lambda>c. c \<noteq> 0) key_material) (le64_bytes salt)
                       (unat iters) 32), w)"
proof -
  have p: "pbkdf2 E (takeWhile (\<lambda>c. c \<noteq> 0) key_material) (le64_bytes salt) (unat iters) 32
           = (0, pbkdf2_hmac H (takeWhile (\<lambda>c. c \<noteq> 0) key_material) (le64_bytes salt)
                   (unat iters) 32)"
    by (rule pbkdf2_refines [where H = H, OF assms]) (simp add: length_le64_bytes)
  have t: "take (strlen key_material) key_material = takeWhile (\<lambda>c. c \<noteq> 0) key_material"
    by (simp add: strlen_def takeWhile_eq_take [symmetric])
  show ?thesis
    by (simp add: derive_key_def Let_def t p WRAPPING_KEY_LEN_def
        ZFS_KEYFORMAT_PASSPHRASE_def ZFS_KEYFORMAT_RAW_def ZFS_KEYFORMAT_HEX_def)
qed


lemma pbkdf2_hmac_length:
  assumes "\<forall>d. length (H P d) = 20"
  shows "length (pbkdf2_hmac H P S c 32) = 32"
proof -
  have up: "[1 ..< Suc ((32 + 19) div 20)] = [1, 2]"
    by (simp add: upt_rec)
  show ?thesis
    unfolding pbkdf2_hmac_def up
    by (simp add: pbkdf2_T_length [where H = H and P = P, OF assms])
qed

lemma takeWhile_no_zero:
  "0 \<notin> set key_material \<Longrightarrow> takeWhile (\<lambda>c. c \<noteq> 0) key_material = key_material"
  by (induction key_material) auto

text \<open>
  Claim C1, as amended. With a provider that never fails and computes the digest \<open>H\<close> of 20
  bytes, \<^verbatim>\<open>derive_key\<close> with the passphrase format returns 0 and a key of 32 bytes: the
  output of PBKDF2 as specified, over the 8 bytes of the salt in little-endian order and
  for every iteration count, of the passphrase that \<^verbatim>\<open>strlen\<close> sees, that is the key
  material up to its first zero byte. For key material without a zero byte this is the
  output of PBKDF2 for the key material itself. Key material with a zero byte is accepted
  from a file, and the bytes from the zero byte on do not reach the derivation.
\<close>

theorem derive_key_passphrase_pbkdf2:
  assumes "\<forall>k. crypto_create_ctx_template E k = CRYPTO_SUCCESS"
    and "\<forall>k d. crypto_mac E k d = (CRYPTO_SUCCESS, H k d)"
    and "\<forall>k d. length (H k d) = 20"
  shows "derive_key E w ZFS_KEYFORMAT_PASSPHRASE iters key_material key_material_len salt
         = (0, Some (pbkdf2_hmac H (takeWhile (\<lambda>c. c \<noteq> 0) key_material) (le64_bytes salt)
                       (unat iters) 32), w)
       \<and> length (pbkdf2_hmac H (takeWhile (\<lambda>c. c \<noteq> 0) key_material) (le64_bytes salt)
                  (unat iters) 32) = 32
       \<and> (0 \<notin> set key_material \<longrightarrow>
            derive_key E w ZFS_KEYFORMAT_PASSPHRASE iters key_material key_material_len salt
            = (0, Some (pbkdf2_hmac H key_material (le64_bytes salt) (unat iters) 32), w))"
proof -
  let ?P = "takeWhile (\<lambda>c. c \<noteq> 0) key_material"
  have a: "crypto_create_ctx_template E ?P = CRYPTO_SUCCESS"
    "\<forall>d. crypto_mac E ?P d = (CRYPTO_SUCCESS, H ?P d)"
    "\<forall>d. length (H ?P d) = 20"
    using assms by simp_all
  have d: "derive_key E w ZFS_KEYFORMAT_PASSPHRASE iters key_material key_material_len salt
         = (0, Some (pbkdf2_hmac H ?P (le64_bytes salt) (unat iters) 32), w)"
    by (rule derive_key_passphrase_refines [where H = H, OF a])
  have l: "length (pbkdf2_hmac H ?P (le64_bytes salt) (unat iters) 32) = 32"
    by (rule pbkdf2_hmac_length [where H = H, OF a(3)])
  show ?thesis
    using d l by (simp add: takeWhile_no_zero)
qed

theorem derive_key_passphrase_pbkdf2_witness:
  "derive_key (working_env no_files sum_mac (\<lambda>n b k. 0)) \<lparr>stdin = terminal [], err_aux = []\<rparr>
     ZFS_KEYFORMAT_PASSPHRASE 1000 (ascii ''correct horse'') 13 0x1122334455667788
   = (0, Some (pbkdf2_hmac sum_mac (ascii ''correct horse'') (le64_bytes 0x1122334455667788)
                 (unat (1000 :: uint64)) 32),
      \<lparr>stdin = terminal [], err_aux = []\<rparr>)"
proof -
  let ?E = "working_env no_files sum_mac (\<lambda>n b k. 0)"
  have h1: "\<forall>k. crypto_create_ctx_template ?E k = CRYPTO_SUCCESS"
    by (simp add: working_env_def)
  have h2: "\<forall>k d. crypto_mac ?E k d = (CRYPTO_SUCCESS, sum_mac k d)"
    by (simp add: working_env_def)
  have h3: "\<forall>k d. length (sum_mac k d) = 20"
    by (simp add: sum_mac_def)
  have nz: "0 \<notin> set (ascii ''correct horse'')"
    by (simp add: ascii_def)
  show ?thesis
    by (rule derive_key_passphrase_pbkdf2
          [OF h1 h2 h3, THEN conjunct2, THEN conjunct2, rule_format, OF nz])
qed

text \<open>
  Two passphrases of nine bytes that agree up to a zero byte give the same key: the file
  below is read as the nine bytes \<open>abc\<close>, zero, \<open>defgh\<close>, and the key derived from them is
  the one of the three bytes \<open>abc\<close>, not the one of the nine.
\<close>

theorem derive_key_passphrase_nul_counterexample:
  "get_key_material (working_env (one_file ''/pw.key'' (nul_passphrase @ [nl])) sum_mac (\<lambda>n b k. 0))
     \<lparr>stdin = terminal [], err_aux = []\<rparr> False ZFS_KEYFORMAT_PASSPHRASE ''file:///pw.key''
     = (0, nul_passphrase, 9, False, \<lparr>stdin = terminal [], err_aux = []\<rparr>)
   \<and> derive_key (working_env no_files sum_mac (\<lambda>n b k. 0)) \<lparr>stdin = terminal [], err_aux = []\<rparr>
       ZFS_KEYFORMAT_PASSPHRASE 1 nul_passphrase 9 0x1122334455667788
     = (0, Some (pbkdf2_hmac sum_mac (ascii ''abc'') (le64_bytes 0x1122334455667788) 1 32),
        \<lparr>stdin = terminal [], err_aux = []\<rparr>)
   \<and> pbkdf2_hmac sum_mac (ascii ''abc'') (le64_bytes 0x1122334455667788) 1 32
     \<noteq> pbkdf2_hmac sum_mac nul_passphrase (le64_bytes 0x1122334455667788) 1 32"
  by code_simp

end
